theory Spec2Isabelle
  imports Complex_Main "HOL-Library.Word"
begin

unbundle bit_operations_syntax

section \<open>Framework types used by the LUM driver\<close>

text \<open>
  The driver \<^verbatim>\<open>frmts/lum/lumdataset.cpp\<close> is written against the raster framework:
  bytes are \<^verbatim>\<open>GByte\<close>, the header fields are \<^verbatim>\<open>uint32_t\<close>, a stream is a
  \<^verbatim>\<open>VSILFILE*\<close> (here a handle number, \<open>None\<close> for \<^verbatim>\<open>nullptr\<close>).
\<close>

type_synonym GByte = "8 word"
type_synonym uint32_t = "32 word"
type_synonym vsi_l_offset = "64 word"
type_synonym VSILFILE = nat

datatype GDALDataType =
    GDT_Unknown | GDT_Byte | GDT_UInt16 | GDT_Int16 | GDT_UInt32 | GDT_Int32
  | GDT_Float32 | GDT_Float64 | GDT_CInt16 | GDT_CInt32 | GDT_CFloat32 | GDT_CFloat64

datatype GDALAccess = GA_ReadOnly | GA_Update

datatype CPLErr = CE_None | CE_Debug | CE_Warning | CE_Failure | CE_Fatal

datatype CPLErrorNum = CPLE_AppDefined | CPLE_FileIO | CPLE_OpenFailed

datatype GDALColorInterp = GCI_Undefined | GCI_GrayIndex

text \<open>The part of \<^verbatim>\<open>GDALOpenInfo\<close> that the driver reads and writes.\<close>

record GDALOpenInfo =
  pszFilename :: string
  eAccess :: GDALAccess
  nHeaderBytes :: int
  pabyHeader :: "GByte list"
  fpL :: "VSILFILE option"

section \<open>C strings and the CPL comparison macros\<close>

text \<open>A C string literal as the bytes of its characters.\<close>

definition cstr :: "string \<Rightarrow> GByte list" where
  "cstr s = map of_char s"

text \<open>
  A read through a \<^verbatim>\<open>char*\<close>: the byte at the pointer. The framework's header buffer is
  allocated one byte longer than the bytes read and zero filled, so a read at the end of
  the buffer gives NUL.
\<close>

definition deref :: "GByte list \<Rightarrow> GByte" where
  "deref p = (case p of [] \<Rightarrow> 0 | c # _ \<Rightarrow> c)"

text \<open>
  Modelled from the spec: the comparison macros of \<^verbatim>\<open>cpl_port.h\<close> are not part of this
  file; the spec has the tags match ``case-insensitively''. They rest on C's
  \<^verbatim>\<open>tolower\<close> in the C locale, where only \<^verbatim>\<open>'A'..'Z'\<close> change.
\<close>

definition tolower :: "GByte \<Rightarrow> GByte" where
  "tolower c = (if 0x41 \<le> c \<and> c \<le> 0x5A then c + 0x20 else c)"

text \<open>
  \<^verbatim>\<open>EQUALN(a,b,n)\<close> is \<^verbatim>\<open>strncasecmp(a,b,n) == 0\<close>: at most \<open>n\<close> characters are
  compared without regard to case, and the comparison ends at a NUL.
\<close>

fun EQUALN :: "GByte list \<Rightarrow> GByte list \<Rightarrow> nat \<Rightarrow> bool" where
  "EQUALN a b 0 = True"
| "EQUALN a b (Suc n) =
     (if tolower (deref a) \<noteq> tolower (deref b) then False
      else if deref a = 0 then True
      else EQUALN (tl a) (tl b) n)"

text \<open>\<^verbatim>\<open>#define STARTS_WITH_CI(a,b) EQUALN(a,b,strlen(b))\<close>\<close>

definition STARTS_WITH_CI :: "GByte list \<Rightarrow> string \<Rightarrow> bool" where
  "STARTS_WITH_CI a b = EQUALN a (cstr b) (length b)"

text \<open>\<^verbatim>\<open>EQUAL(a,b)\<close> is \<^verbatim>\<open>strcasecmp(a,b) == 0\<close>: the whole strings, without regard to case.\<close>

definition EQUAL :: "string \<Rightarrow> string \<Rightarrow> bool" where
  "EQUAL a b = (map tolower (cstr a) = map tolower (cstr b))"

section \<open>Identify\<close>

definition Identify :: "GDALOpenInfo \<Rightarrow> bool" where
  "Identify poOpenInfo =
     (if nHeaderBytes poOpenInfo < 12 \<or> fpL poOpenInfo = None then False
      else
        let psHeader = pabyHeader poOpenInfo in
        if (\<not> STARTS_WITH_CI (drop 8 psHeader) ''08BI'') \<and>
           (\<not> STARTS_WITH_CI (drop 8 psHeader) ''09BI'') \<and>
           (\<not> STARTS_WITH_CI (drop 8 psHeader) ''10BI'') \<and>
           (\<not> STARTS_WITH_CI (drop 8 psHeader) ''11BI'') \<and>
           (\<not> STARTS_WITH_CI (drop 8 psHeader) ''12BI'') \<and>
           (\<not> STARTS_WITH_CI (drop 8 psHeader) ''13BI'') \<and>
           (\<not> STARTS_WITH_CI (drop 8 psHeader) ''14BI'') \<and>
           (\<not> STARTS_WITH_CI (drop 8 psHeader) ''15BI'') \<and>
           (\<not> STARTS_WITH_CI (drop 8 psHeader) ''16BI'') \<and>
           (\<not> STARTS_WITH_CI (drop 8 psHeader) ''08LI'') \<and>
           (\<not> STARTS_WITH_CI (drop 8 psHeader) ''09LI'') \<and>
           (\<not> STARTS_WITH_CI (drop 8 psHeader) ''10LI'') \<and>
           (\<not> STARTS_WITH_CI (drop 8 psHeader) ''11LI'') \<and>
           (\<not> STARTS_WITH_CI (drop 8 psHeader) ''12LI'') \<and>
           (\<not> STARTS_WITH_CI (drop 8 psHeader) ''13LI'') \<and>
           (\<not> STARTS_WITH_CI (drop 8 psHeader) ''14LI'') \<and>
           (\<not> STARTS_WITH_CI (drop 8 psHeader) ''15LI'') \<and>
           (\<not> STARTS_WITH_CI (drop 8 psHeader) ''16LI'') \<and>
           (\<not> STARTS_WITH_CI (drop 8 psHeader) ''FLOL'')
        then False
        else True)"

section \<open>Byte order\<close>

definition swapByteOrder :: "uint32_t \<Rightarrow> uint32_t" where
  "swapByteOrder ui =
     drop_bit 24 ui OR
     (push_bit 8 ui AND 0x00FF0000) OR
     (drop_bit 8 ui AND 0x0000FF00) OR
     push_bit 24 ui"

text \<open>The 32-bit value whose least significant byte is \<open>b0\<close>.\<close>

definition le32 :: "GByte \<Rightarrow> GByte \<Rightarrow> GByte \<Rightarrow> GByte \<Rightarrow> uint32_t" where
  "le32 b0 b1 b2 b3 =
     ucast b0 OR push_bit 8 (ucast b1) OR push_bit 16 (ucast b2) OR push_bit 24 (ucast b3)"

text \<open>
  A read through a \<^verbatim>\<open>uint32_t*\<close> that points into a byte buffer, and the bytes that a
  write of a \<^verbatim>\<open>GUInt32\<close> object puts into a stream. Both follow the byte order of the
  host: \<open>lsb\<close> stands for the compile-time macro \<^verbatim>\<open>CPL_LSB\<close> (little-endian host).
\<close>

definition load_u32 :: "bool \<Rightarrow> GByte list \<Rightarrow> uint32_t" where
  "load_u32 lsb p =
     (let b0 = deref p; b1 = deref (drop 1 p); b2 = deref (drop 2 p); b3 = deref (drop 3 p)
      in if lsb then le32 b0 b1 b2 b3 else le32 b3 b2 b1 b0)"

definition store_u32 :: "bool \<Rightarrow> uint32_t \<Rightarrow> GByte list" where
  "store_u32 lsb v =
     (let bs = [ucast v, ucast (drop_bit 8 v), ucast (drop_bit 16 v), ucast (drop_bit 24 v)]
      in if lsb then bs else rev bs)"

section \<open>Datasets, bands and the world outside\<close>

text \<open>
  Modelled from the spec: \<^verbatim>\<open>GDALGetDataTypeSizeBytes\<close> is framework code outside this file;
  the spec has a pixel size of 1 byte for 8-bit and 2 bytes for 16-bit unsigned samples.
\<close>

fun GDALGetDataTypeSizeBytes :: "GDALDataType \<Rightarrow> int" where
  "GDALGetDataTypeSizeBytes GDT_Byte = 1"
| "GDALGetDataTypeSizeBytes GDT_UInt16 = 2"
| "GDALGetDataTypeSizeBytes GDT_Int16 = 2"
| "GDALGetDataTypeSizeBytes GDT_UInt32 = 4"
| "GDALGetDataTypeSizeBytes GDT_Int32 = 4"
| "GDALGetDataTypeSizeBytes GDT_Float32 = 4"
| "GDALGetDataTypeSizeBytes GDT_CInt16 = 4"
| "GDALGetDataTypeSizeBytes GDT_Float64 = 8"
| "GDALGetDataTypeSizeBytes GDT_CInt32 = 8"
| "GDALGetDataTypeSizeBytes GDT_CFloat32 = 8"
| "GDALGetDataTypeSizeBytes GDT_CFloat64 = 16"
| "GDALGetDataTypeSizeBytes GDT_Unknown = 0"

definition INT_MAX :: int where
  "INT_MAX = 2147483647"

text \<open>
  The arguments of the \<^verbatim>\<open>RawRasterBand\<close> constructor, in its order:
  \<^verbatim>\<open>(poDS, nBand, fpRaw, nImgOffset, nPixelOffset, nLineOffset, eDataType, bNativeOrder, bOwnsFP)\<close>,
  and the colour interpretation set afterwards.
\<close>

record RawRasterBand =
  nBand :: int
  fpRaw :: "VSILFILE option"
  nImgOffset :: vsi_l_offset
  nPixelOffset :: int
  nLineOffset :: int
  eDataType :: GDALDataType
  bNativeOrder :: bool
  bOwnsFP :: bool
  eColorInterp :: GDALColorInterp

record LUMDataset =
  fpImage :: "VSILFILE option"
  bGeoTransformValid :: bool
  adfGeoTransform :: "real list"
  nRasterXSize :: int
  nRasterYSize :: int
  dsAccess :: GDALAccess
  papoBands :: "RawRasterBand list"
  dsDescription :: string

text \<open>The messages the driver hands to \<^verbatim>\<open>CPLError\<close>, with their arguments.\<close>

datatype lum_message =
    IllegalDataType GDALDataType
  | IllegalBandCount int
  | ExtensionShouldBeLum
  | CreateFileFailed string
  | InvalidDimensions int int
  | IntOverflow
  | IOError

text \<open>
  The world outside the driver: the contents of the files, the open streams with the file
  each one belongs to, the next free stream handle, and the errors reported so far.
\<close>

record world =
  files :: "string \<Rightarrow> GByte list option"
  streams :: "VSILFILE \<Rightarrow> string option"
  next_fp :: VSILFILE
  errors :: "(CPLErr \<times> CPLErrorNum \<times> lum_message) list"

text \<open>
  What the file system answers to the calls of one \<^verbatim>\<open>Create\<close>: whether
  \<^verbatim>\<open>VSIFOpenL(.., "wb")\<close> gives a stream, how many bytes the stream takes at each of the
  three \<^verbatim>\<open>VSIFWriteL\<close> calls, what \<^verbatim>\<open>VSIFCloseL\<close> returns, whether the framework can
  open the file again, and what \<^verbatim>\<open>VSIFCloseL\<close> returns in the dataset's destructor.
\<close>

record vsi_env =
  create_ok :: bool
  accept_width :: nat
  accept_height :: nat
  accept_tag :: nat
  close_rc :: int
  reopen_ok :: bool
  delete_close_rc :: int

definition CPLError :: "CPLErr \<Rightarrow> CPLErrorNum \<Rightarrow> lum_message \<Rightarrow> world \<Rightarrow> world" where
  "CPLError eErrClass err_no msg w = w\<lparr>errors := errors w @ [(eErrClass, err_no, msg)]\<rparr>"

text \<open>
  Modelled from the spec: the virtual file calls are framework code outside this file; the
  spec has \<^verbatim>\<open>Create\<close> ``open (truncate-create) the destination file'', write to it and
  close it, ``checking the close result''.

  \<^verbatim>\<open>VSIFOpenL(name, "wb")\<close>: on success the file exists and is empty, and a new stream on
  it is open; on failure nothing changes.
\<close>

definition VSIFOpenL_wb :: "bool \<Rightarrow> string \<Rightarrow> world \<Rightarrow> VSILFILE option \<times> world" where
  "VSIFOpenL_wb ok name w =
     (if ok
      then (Some (next_fp w),
            w\<lparr>files := (files w)(name \<mapsto> []),
              streams := (streams w)(next_fp w \<mapsto> name),
              next_fp := Suc (next_fp w)\<rparr>)
      else (None, w))"

text \<open>
  \<^verbatim>\<open>VSIFWriteL(pBuffer, nSize, nCount, fp)\<close> on a stream written front to back: the stream
  takes the first \<open>accepted\<close> bytes of the \<open>nSize * nCount\<close> requested ones, they are
  appended to the file, and the call returns the number of complete objects written.
\<close>

definition VSIFWriteL :: "nat \<Rightarrow> GByte list \<Rightarrow> nat \<Rightarrow> nat \<Rightarrow> VSILFILE \<Rightarrow> world \<Rightarrow> nat \<times> world" where
  "VSIFWriteL accepted pBuffer nSize nCount fp w =
     (case streams w fp of
        None \<Rightarrow> (0, w)
      | Some name \<Rightarrow>
          let data = take (min accepted (nSize * nCount)) pBuffer;
              old = (case files w name of None \<Rightarrow> [] | Some c \<Rightarrow> c)
          in (length data div nSize, w\<lparr>files := (files w)(name \<mapsto> old @ data)\<rparr>))"

text \<open>\<^verbatim>\<open>VSIFCloseL(fp)\<close>: the stream is gone whatever the call returns.\<close>

definition VSIFCloseL :: "int \<Rightarrow> VSILFILE \<Rightarrow> world \<Rightarrow> int \<times> world" where
  "VSIFCloseL rc fp w = (rc, w\<lparr>streams := (streams w)(fp := None)\<rparr>)"

text \<open>
  Modelled from the spec: the constructor and destructor of \<^verbatim>\<open>GDALOpenInfo\<close> are framework
  code outside this file. The spec has the framework supply ``a byte buffer + stream handle
  at open-probe time'': the constructor opens a stream on an existing file and reads its
  first bytes (at most 1024) into the header buffer; the destructor closes the stream if the
  driver has not taken it.
\<close>

definition GDALOpenInfo_new :: "bool \<Rightarrow> string \<Rightarrow> GDALAccess \<Rightarrow> world \<Rightarrow> GDALOpenInfo \<times> world" where
  "GDALOpenInfo_new ok name acc w =
     (case files w name of
        None \<Rightarrow>
          (\<lparr>pszFilename = name, eAccess = acc, nHeaderBytes = 0, pabyHeader = [], fpL = None\<rparr>, w)
      | Some content \<Rightarrow>
          if ok
          then (\<lparr>pszFilename = name, eAccess = acc,
                 nHeaderBytes = int (length (take 1024 content)),
                 pabyHeader = take 1024 content, fpL = Some (next_fp w)\<rparr>,
                w\<lparr>streams := (streams w)(next_fp w \<mapsto> name), next_fp := Suc (next_fp w)\<rparr>)
          else (\<lparr>pszFilename = name, eAccess = acc, nHeaderBytes = 0, pabyHeader = [],
                 fpL = None\<rparr>, w))"

definition GDALOpenInfo_delete :: "GDALOpenInfo \<Rightarrow> world \<Rightarrow> world" where
  "GDALOpenInfo_delete oi w =
     (case fpL oi of None \<Rightarrow> w | Some fp \<Rightarrow> snd (VSIFCloseL 0 fp w))"

text \<open>
  Modelled from the spec: \<^verbatim>\<open>CPLGetExtension\<close> is framework code outside this file; the spec
  speaks of the ``filename extension''. It is the part of the file name (after the last
  path separator) behind its last dot, empty if there is no dot behind the first character.
\<close>

definition CPLGetExtension :: "string \<Rightarrow> string" where
  "CPLGetExtension pszFullFilename =
     (let base = rev (takeWhile (\<lambda>c. c \<noteq> CHR ''/'' \<and> c \<noteq> CHR 0x5C) (rev pszFullFilename));
          ext = takeWhile (\<lambda>c. c \<noteq> CHR ''.'') (rev base)
      in if length ext + 1 < length base then rev ext else [])"

section \<open>The dataset class\<close>

text \<open>
  The constructor: the base class starts a dataset as a read-only 512 x 512 raster without
  bands; \<^verbatim>\<open>LUMDataset()\<close> adds a null stream, an invalid geotransform flag and the
  coefficients.
\<close>

definition LUMDataset_new :: LUMDataset where
  "LUMDataset_new =
     \<lparr>fpImage = None, bGeoTransformValid = False,
      adfGeoTransform = [0.0, 1.0, 0.0, 0.0, 0.0, 1.0],
      nRasterXSize = 512, nRasterYSize = 512, dsAccess = GA_ReadOnly,
      papoBands = [], dsDescription = []\<rparr>"

text \<open>The destructor: \<^verbatim>\<open>~LUMDataset()\<close> closes the stream it holds.\<close>

definition LUMDataset_delete :: "int \<Rightarrow> LUMDataset \<Rightarrow> world \<Rightarrow> world" where
  "LUMDataset_delete rc poDS w =
     (case fpImage poDS of
        None \<Rightarrow> w
      | Some fp \<Rightarrow>
          let r = VSIFCloseL rc fp w
          in if fst r \<noteq> 0 then CPLError CE_Failure CPLE_FileIO IOError (snd r) else snd r)"

text \<open>
  \<^verbatim>\<open>GetGeoTransform(padfTransform)\<close>: returns the error class and the caller's buffer, into
  which the six coefficients have been copied on success.
\<close>

definition GetGeoTransform :: "LUMDataset \<Rightarrow> real list \<Rightarrow> CPLErr \<times> real list" where
  "GetGeoTransform poDS padfTransform =
     (if bGeoTransformValid poDS
      then (CE_None, take 6 (adfGeoTransform poDS) @ drop 6 padfTransform)
      else (CE_Failure, padfTransform))"

section \<open>Open\<close>

text \<open>
  The width and height of \<^verbatim>\<open>Open\<close>: the two \<^verbatim>\<open>uint32_t\<close> at the start of the header,
  swapped when the order tag names the byte order that is not the host's.
\<close>

definition header_dims :: "bool \<Rightarrow> GByte list \<Rightarrow> uint32_t \<times> uint32_t" where
  "header_dims lsb psHeader =
     (let nWidth = load_u32 lsb psHeader;
          nHeight = load_u32 lsb (drop 4 psHeader)
      in if lsb
         then (if STARTS_WITH_CI (drop 10 psHeader) ''BI''
               then (swapByteOrder nWidth, swapByteOrder nHeight)
               else (nWidth, nHeight))
         else (if STARTS_WITH_CI (drop 10 psHeader) ''LI''
               then (swapByteOrder nWidth, swapByteOrder nHeight)
               else (nWidth, nHeight)))"

definition header_bMSBFirst :: "bool \<Rightarrow> GByte list \<Rightarrow> bool" where
  "header_bMSBFirst lsb psHeader =
     (if lsb
      then (if STARTS_WITH_CI (drop 10 psHeader) ''BI'' then False else True)
      else (if STARTS_WITH_CI (drop 10 psHeader) ''LI'' then False else True))"

definition header_eDataType :: "GByte list \<Rightarrow> GDALDataType" where
  "header_eDataType psHeader =
     (if STARTS_WITH_CI (drop 8 psHeader) ''08'' then GDT_Byte else GDT_UInt16)"

text \<open>
  \<^verbatim>\<open>Open\<close> returns the dataset (\<open>None\<close> for \<^verbatim>\<open>nullptr\<close>), the caller's
  \<^verbatim>\<open>GDALOpenInfo\<close> as it leaves it, and the world. \<open>rc\<close> is what \<^verbatim>\<open>VSIFCloseL\<close>
  returns should the dataset be deleted again. The sidecar metadata (\<^verbatim>\<open>TryLoadXML\<close>) and
  the overview manager that \<^verbatim>\<open>Open\<close> starts last belong to the framework; they touch none
  of the fields kept here.
\<close>

definition Open :: "bool \<Rightarrow> int \<Rightarrow> GDALOpenInfo \<Rightarrow> world \<Rightarrow> LUMDataset option \<times> GDALOpenInfo \<times> world" where
  "Open lsb rc poOpenInfo w =
     (if \<not> Identify poOpenInfo then (None, poOpenInfo, w)
      else case fpL poOpenInfo of
        None \<Rightarrow> (None, poOpenInfo, w)
      | Some fp \<Rightarrow>
          let poDS = LUMDataset_new\<lparr>fpImage := Some fp\<rparr>;
              oi = poOpenInfo\<lparr>fpL := None\<rparr>;
              psHeader = pabyHeader oi;
              nWidth = fst (header_dims lsb psHeader);
              nHeight = snd (header_dims lsb psHeader);
              poDS = poDS\<lparr>nRasterXSize := sint nWidth, nRasterYSize := sint nHeight\<rparr>
          in if nRasterXSize poDS \<le> 0 \<or> nRasterYSize poDS \<le> 0
             then (None, oi,
                   LUMDataset_delete rc poDS
                     (CPLError CE_Failure CPLE_AppDefined
                        (InvalidDimensions (nRasterXSize poDS) (nRasterYSize poDS)) w))
             else
               let poDS = poDS\<lparr>dsAccess := eAccess oi\<rparr>;
                   bMSBFirst = header_bMSBFirst lsb psHeader;
                   eDataType = header_eDataType psHeader;
                   iPixelSize = GDALGetDataTypeSizeBytes eDataType
               in if nWidth > word_of_int (INT_MAX div iPixelSize)
                  then (None, oi,
                        LUMDataset_delete rc poDS
                          (CPLError CE_Failure CPLE_AppDefined IntOverflow w))
                  else
                    let band = \<lparr>nBand = 1, fpRaw = fpImage poDS,
                                nImgOffset = ucast (nWidth * word_of_int iPixelSize),
                                nPixelOffset = iPixelSize,
                                nLineOffset = sint (nWidth * word_of_int iPixelSize),
                                eDataType = eDataType,
                                bNativeOrder = bMSBFirst,
                                bOwnsFP = False,
                                eColorInterp = GCI_Undefined\<rparr>;
                        poDS = poDS\<lparr>papoBands := [band\<lparr>eColorInterp := GCI_GrayIndex\<rparr>]\<rparr>;
                        poDS = poDS\<lparr>bGeoTransformValid := True\<rparr>;
                        poDS = poDS\<lparr>dsDescription := pszFilename oi\<rparr>
                    in (Some poDS, oi, w))"

section \<open>Create\<close>

text \<open>The decimal digits of a number and the conversion \<^verbatim>\<open>%02d\<close> of a number that is not negative.\<close>

function dec :: "nat \<Rightarrow> string" where
  "dec n = (if n < 10 then [''0123456789'' ! n] else dec (n div 10) @ [''0123456789'' ! (n mod 10)])"
  by pat_completeness auto
termination
  by (relation "measure id") auto

declare dec.simps [simp del]

definition fmt_02d :: "nat \<Rightarrow> string" where
  "fmt_02d n = replicate (2 - length (dec n)) (CHR ''0'') @ dec n"

text \<open>
  \<^verbatim>\<open>snprintf(szHeader, sizeof(szHeader), "%02dLI", n)\<close> and its \<^verbatim>\<open>BI\<close> twin: at most
  \<^verbatim>\<open>sizeof(szHeader) - 1\<close> characters are stored.
\<close>

definition snprintf_02d :: "nat \<Rightarrow> nat \<Rightarrow> string \<Rightarrow> string" where
  "snprintf_02d sz n suffix = take (sz - 1) (fmt_02d n @ suffix)"

definition szHeader :: "bool \<Rightarrow> GDALDataType \<Rightarrow> string" where
  "szHeader lsb eType =
     (if lsb
      then (if eType = GDT_Byte then snprintf_02d 5 8 ''LI'' else snprintf_02d 5 12 ''LI'')
      else (if eType = GDT_Byte then snprintf_02d 5 8 ''BI'' else snprintf_02d 5 12 ''BI''))"

text \<open>
  ``Write out the header'' and close the stream: the result is \<^verbatim>\<open>bOK\<close> and the world. The
  values of the first two \<^verbatim>\<open>VSIFWriteL\<close> calls are not looked at.
\<close>

definition write_header :: "bool \<Rightarrow> vsi_env \<Rightarrow> int \<Rightarrow> int \<Rightarrow> GDALDataType \<Rightarrow> VSILFILE \<Rightarrow> world \<Rightarrow> bool \<times> world" where
  "write_header lsb env nXSize nYSize eType fp w =
     (let nImageWidth = (word_of_int nXSize :: uint32_t);
          nImageHeight = (word_of_int nYSize :: uint32_t);
          w1 = snd (VSIFWriteL (accept_width env) (store_u32 lsb nImageWidth) 4 1 fp w);
          w2 = snd (VSIFWriteL (accept_height env) (store_u32 lsb nImageHeight) 4 1 fp w1);
          hdr = szHeader lsb eType;
          r3 = VSIFWriteL (accept_tag env) (cstr hdr) (length hdr) 1 fp w2;
          bOK = (fst r3 = 1);
          r4 = VSIFCloseL (close_rc env) fp (snd r3);
          bOK = (if fst r4 \<noteq> 0 then False else bOK)
      in (bOK, snd r4))"

definition Create :: "bool \<Rightarrow> vsi_env \<Rightarrow> string \<Rightarrow> int \<Rightarrow> int \<Rightarrow> int \<Rightarrow> GDALDataType \<Rightarrow> world \<Rightarrow> LUMDataset option \<times> world" where
  "Create lsb env pszFilename' nXSize nYSize nBands eType w =
     (if eType \<noteq> GDT_Byte \<and> eType \<noteq> GDT_UInt16
      then (None, CPLError CE_Failure CPLE_AppDefined (IllegalDataType eType) w)
      else if nBands \<noteq> 1
      then (None, CPLError CE_Failure CPLE_AppDefined (IllegalBandCount nBands) w)
      else
        let osExt = CPLGetExtension pszFilename';
            w0 = (if \<not> EQUAL osExt ''LUM''
                  then CPLError CE_Warning CPLE_AppDefined ExtensionShouldBeLum w
                  else w);
            r = VSIFOpenL_wb (create_ok env) pszFilename' w0
        in case fst r of
             None \<Rightarrow>
               (None, CPLError CE_Failure CPLE_OpenFailed (CreateFileFailed pszFilename') (snd r))
           | Some fp \<Rightarrow>
               let h = write_header lsb env nXSize nYSize eType fp (snd r)
               in if \<not> fst h then (None, snd h)
                  else
                    let oOpenInfo = GDALOpenInfo_new (reopen_ok env) pszFilename' GA_Update (snd h);
                        res = Open lsb (delete_close_rc env) (fst oOpenInfo) (snd oOpenInfo)
                    in (fst res, GDALOpenInfo_delete (fst (snd res)) (snd (snd res))))"

section \<open>The stages of Create\<close>

text \<open>
  What \<^verbatim>\<open>Create\<close> has put into the file once the three writes are done: of each buffer
  the bytes that the stream took.
\<close>

definition written :: "bool \<Rightarrow> vsi_env \<Rightarrow> int \<Rightarrow> int \<Rightarrow> GDALDataType \<Rightarrow> GByte list" where
  "written lsb env nXSize nYSize eType =
     take (accept_width env) (store_u32 lsb (word_of_int nXSize)) @
     take (accept_height env) (store_u32 lsb (word_of_int nYSize)) @
     take (accept_tag env) (cstr (szHeader lsb eType))"

text \<open>The world after the validations of \<^verbatim>\<open>Create\<close> and its warning about the extension.\<close>

definition warned :: "string \<Rightarrow> world \<Rightarrow> world" where
  "warned name w =
     (if \<not> EQUAL (CPLGetExtension name) ''LUM''
      then CPLError CE_Warning CPLE_AppDefined ExtensionShouldBeLum w else w)"

text \<open>
  The \<^verbatim>\<open>GDALOpenInfo\<close> that \<^verbatim>\<open>Create\<close> builds on the written file, and the world in which
  it calls \<^verbatim>\<open>Open\<close>: the stream of the writes is closed, the one of the open info is open.
\<close>

definition reopened :: "bool \<Rightarrow> vsi_env \<Rightarrow> string \<Rightarrow> int \<Rightarrow> int \<Rightarrow> GDALDataType \<Rightarrow> world \<Rightarrow> GDALOpenInfo" where
  "reopened lsb env name x y t w =
     \<lparr>pszFilename = name, eAccess = GA_Update,
      nHeaderBytes = int (length (written lsb env x y t)),
      pabyHeader = written lsb env x y t, fpL = Some (Suc (next_fp w))\<rparr>"

definition reopen_world :: "bool \<Rightarrow> vsi_env \<Rightarrow> string \<Rightarrow> int \<Rightarrow> int \<Rightarrow> GDALDataType \<Rightarrow> world \<Rightarrow> world" where
  "reopen_world lsb env name x y t w =
     (warned name w)
       \<lparr>files := (files w)(name \<mapsto> written lsb env x y t),
        streams := (streams w)(next_fp w := None, Suc (next_fp w) \<mapsto> name),
        next_fp := Suc (Suc (next_fp w))\<rparr>"

section \<open>Notions of the specification\<close>

text \<open>The 19 recognised four-character tags.\<close>

definition lum_tags :: "string list" where
  "lum_tags =
     [''08BI'', ''09BI'', ''10BI'', ''11BI'', ''12BI'', ''13BI'', ''14BI'', ''15BI'', ''16BI'',
      ''08LI'', ''09LI'', ''10LI'', ''11LI'', ''12LI'', ''13LI'', ''14LI'', ''15LI'', ''16LI'',
      ''FLOL'']"

text \<open>Bytes match a tag case-insensitively: equal once both are put in lower case.\<close>

definition ci_match :: "GByte list \<Rightarrow> string \<Rightarrow> bool" where
  "ci_match bs t = (map tolower bs = map tolower (cstr t))"

text \<open>Bytes 8 to 11 of the header buffer, and the order tag at bytes 10 and 11.\<close>

definition header_tag :: "GByte list \<Rightarrow> GByte list" where
  "header_tag hdr = take 4 (drop 8 hdr)"

definition order_tag :: "GByte list \<Rightarrow> GByte list" where
  "order_tag hdr = take 2 (drop 10 hdr)"

text \<open>
  The order tag names the byte order opposite to the host's (\<^verbatim>\<open>BI\<close> on a little-endian
  host, \<^verbatim>\<open>LI\<close> on a big-endian one), or the host's own.
\<close>

definition tag_opposite :: "bool \<Rightarrow> GByte list \<Rightarrow> bool" where
  "tag_opposite lsb hdr = ci_match (order_tag hdr) (if lsb then ''BI'' else ''LI'')"

definition tag_native :: "bool \<Rightarrow> GByte list \<Rightarrow> bool" where
  "tag_native lsb hdr = ci_match (order_tag hdr) (if lsb then ''LI'' else ''BI'')"

text \<open>The 12-byte header of the specification for a width, a height and a pixel type.\<close>

definition lum_header :: "bool \<Rightarrow> int \<Rightarrow> int \<Rightarrow> GDALDataType \<Rightarrow> GByte list" where
  "lum_header lsb nXSize nYSize eType =
     store_u32 lsb (word_of_int nXSize) @ store_u32 lsb (word_of_int nYSize) @
     cstr ((if eType = GDT_Byte then ''08'' else ''12'') @ (if lsb then ''LI'' else ''BI''))"

text \<open>No call to the file system fails during a \<^verbatim>\<open>Create\<close>.\<close>

definition io_ok :: "vsi_env \<Rightarrow> bool" where
  "io_ok env \<longleftrightarrow>
     create_ok env \<and> 4 \<le> accept_width env \<and> 4 \<le> accept_height env \<and>
     4 \<le> accept_tag env \<and> close_rc env = 0 \<and> reopen_ok env"

text \<open>A world without files and streams, and a file system that never fails.\<close>

definition empty_world :: world where
  "empty_world = \<lparr>files = (\<lambda>_. None), streams = (\<lambda>_. None), next_fp = 0, errors = []\<rparr>"

definition good_env :: vsi_env where
  "good_env =
     \<lparr>create_ok = True, accept_width = 4, accept_height = 4, accept_tag = 4, close_rc = 0,
      reopen_ok = True, delete_close_rc = 0\<rparr>"

text \<open>The \<^verbatim>\<open>GDALOpenInfo\<close> of a probe: a header buffer with an open stream.\<close>

definition probe :: "GByte list \<Rightarrow> GDALOpenInfo" where
  "probe hdr =
     \<lparr>pszFilename = ''probe.lum'', eAccess = GA_ReadOnly, nHeaderBytes = int (length hdr),
      pabyHeader = hdr, fpL = Some 0\<rparr>"

text \<open>Two headers of a 4 x 3 image of bytes: one big-endian, one little-endian.\<close>

definition hdr_be_4x3 :: "GByte list" where
  "hdr_be_4x3 = [0, 0, 0, 4, 0, 0, 0, 3] @ cstr ''08BI''"

definition hdr_le_4x3 :: "GByte list" where
  "hdr_le_4x3 = [4, 0, 0, 0, 3, 0, 0, 0] @ cstr ''08LI''"

text \<open>A world in which the stream of a probe is open.\<close>

definition probe_world :: world where
  "probe_world = \<lparr>files = (\<lambda>_. None), streams = (\<lambda>_. None)(0 \<mapsto> ''probe.lum''), next_fp = 1, errors = []\<rparr>"

text \<open>
  Little-endian headers with a width of zero, with a height that is negative as a signed
  value, and with a 16-bit width whose row does not fit a signed 32-bit integer.
\<close>

definition hdr_zero_width :: "GByte list" where
  "hdr_zero_width = [0, 0, 0, 0, 3, 0, 0, 0] @ cstr ''08LI''"

definition hdr_negative_height :: "GByte list" where
  "hdr_negative_height = [4, 0, 0, 0, 0xFF, 0xFF, 0xFF, 0xFF] @ cstr ''08LI''"

definition hdr_overflow :: "GByte list" where
  "hdr_overflow = [0, 0, 0, 0x40, 3, 0, 0, 0] @ cstr ''12LI''"

section \<open>Case-insensitive comparison\<close>

lemma tolower_0: "tolower 0 = 0"
  by (simp add: tolower_def)

lemma EQUALN_iff:
  "0 \<notin> set (map tolower b) \<Longrightarrow> length b = n \<Longrightarrow>
   EQUALN a b n \<longleftrightarrow> map tolower (take n a) = map tolower b"
proof (induction n arbitrary: a b)
  case 0
  then show ?case by simp
next
  case (Suc n)
  then obtain y ys where b: "b = y # ys" by (cases b) auto
  with Suc.prems have y: "tolower y \<noteq> 0" and ys: "0 \<notin> set (map tolower ys)" "length ys = n"
    by auto
  show ?case
  proof (cases a)
    case Nil
    with y show ?thesis by (simp add: b deref_def tolower_0)
  next
    case (Cons x xs)
    show ?thesis
    proof (cases "tolower x = tolower y")
      case False
      then show ?thesis by (simp add: b Cons deref_def)
    next
      case True
      with y have "x \<noteq> 0" using tolower_0 by auto
      with True show ?thesis
        using Suc.IH [OF ys, of xs] by (simp add: b Cons deref_def)
    qed
  qed
qed

lemma STARTS_WITH_CI_iff:
  "length t = n \<Longrightarrow> 0 \<notin> set (map tolower (cstr t)) \<Longrightarrow>
   STARTS_WITH_CI a t \<longleftrightarrow> ci_match (take n a) t"
  by (simp add: STARTS_WITH_CI_def EQUALN_iff cstr_def ci_match_def)

lemma lum_tags_props:
  "t \<in> set lum_tags \<Longrightarrow> length t = 4 \<and> 0 \<notin> set (map tolower (cstr t))"
  by (auto simp: lum_tags_def cstr_def tolower_def)

lemma STARTS_WITH_CI_tag:
  "t \<in> set lum_tags \<Longrightarrow> STARTS_WITH_CI a t \<longleftrightarrow> ci_match (take 4 a) t"
  using lum_tags_props [of t] by (simp add: STARTS_WITH_CI_iff [of t 4])

lemma Identify_tags:
  "Identify oi \<longleftrightarrow>
     12 \<le> nHeaderBytes oi \<and> fpL oi \<noteq> None \<and>
     (\<exists>t \<in> set lum_tags. ci_match (header_tag (pabyHeader oi)) t)"
proof -
  have "\<forall>t \<in> set lum_tags.
          STARTS_WITH_CI (drop 8 (pabyHeader oi)) t = ci_match (header_tag (pabyHeader oi)) t"
    by (simp add: STARTS_WITH_CI_tag header_tag_def)
  then show ?thesis
    unfolding Identify_def Let_def
    by (simp add: lum_tags_def)
qed

lemma STARTS_WITH_CI_BI: "STARTS_WITH_CI a ''BI'' \<longleftrightarrow> ci_match (take 2 a) ''BI''"
  by (rule STARTS_WITH_CI_iff) (simp_all add: cstr_def tolower_def)

lemma STARTS_WITH_CI_LI: "STARTS_WITH_CI a ''LI'' \<longleftrightarrow> ci_match (take 2 a) ''LI''"
  by (rule STARTS_WITH_CI_iff) (simp_all add: cstr_def tolower_def)

lemma STARTS_WITH_CI_08: "STARTS_WITH_CI a ''08'' \<longleftrightarrow> ci_match (take 2 a) ''08''"
  by (rule STARTS_WITH_CI_iff) (simp_all add: cstr_def tolower_def)

lemma BI_not_LI: "ci_match bs ''BI'' \<Longrightarrow> \<not> ci_match bs ''LI''"
  by (simp add: ci_match_def cstr_def tolower_def)

text \<open>
  C4. \<^verbatim>\<open>Identify\<close> is true exactly when at least 12 header bytes and a stream are there and
  bytes 8 to 11 of the header buffer match one of the 19 tags \<^verbatim>\<open>08BI\<close> .. \<^verbatim>\<open>16BI\<close>,
  \<^verbatim>\<open>08LI\<close> .. \<^verbatim>\<open>16LI\<close>, \<^verbatim>\<open>FLOL\<close> without regard to case. It is a function of the
  \<^verbatim>\<open>GDALOpenInfo\<close> alone (no world goes in or comes out), and replacing bytes 0 to 7 and the
  bytes behind offset 11 by any others does not change its value.
\<close>

theorem Identify_iff_recognised_tag:
  "(Identify oi \<longleftrightarrow>
      12 \<le> nHeaderBytes oi \<and> fpL oi \<noteq> None \<and>
      (\<exists>t \<in> set lum_tags. ci_match (header_tag (pabyHeader oi)) t)) \<and>
   length lum_tags = 19 \<and> distinct lum_tags \<and>
   (length a = 8 \<and> length a' = 8 \<and> length tag = 4 \<longrightarrow>
      Identify (oi\<lparr>pabyHeader := a @ tag @ rest\<rparr>) = Identify (oi\<lparr>pabyHeader := a' @ tag @ rest'\<rparr>))"
proof (intro conjI impI)
  show "Identify oi \<longleftrightarrow>
      12 \<le> nHeaderBytes oi \<and> fpL oi \<noteq> None \<and>
      (\<exists>t \<in> set lum_tags. ci_match (header_tag (pabyHeader oi)) t)"
    by (rule Identify_tags)
  show "length lum_tags = 19" by (simp add: lum_tags_def)
  show "distinct lum_tags" by (simp add: lum_tags_def)
next
  assume "length a = 8 \<and> length a' = 8 \<and> length tag = 4"
  then have "header_tag (a @ tag @ rest) = tag" "header_tag (a' @ tag @ rest') = tag"
    by (simp_all add: header_tag_def)
  then show "Identify (oi\<lparr>pabyHeader := a @ tag @ rest\<rparr>) =
             Identify (oi\<lparr>pabyHeader := a' @ tag @ rest'\<rparr>)"
    by (simp add: Identify_tags)
qed

theorem Identify_iff_recognised_tag_witness:
  "length (cstr ''ABCDEFGH'') = 8 \<and> length (cstr ''12345678'') = 8 \<and>
   length (cstr ''12li'') = 4 \<and>
   Identify (probe (cstr ''ABCDEFGH'' @ cstr ''12li'' @ cstr ''xyz'')) \<and>
   Identify (probe (cstr ''12345678'' @ cstr ''12li'' @ [])) \<and>
   \<not> Identify (probe (cstr ''ABCDEFGH'' @ cstr ''17li'' @ cstr ''xyz'')) \<and>
   \<not> Identify (probe (cstr ''ABCDEFGH12l''))"
proof -
  let ?oi = "probe (cstr ''ABCDEFGH'' @ cstr ''12li'' @ cstr ''xyz'')"
  have eq: "Identify (?oi\<lparr>pabyHeader := cstr ''ABCDEFGH'' @ cstr ''12li'' @ cstr ''xyz''\<rparr>) =
            Identify (?oi\<lparr>pabyHeader := cstr ''12345678'' @ cstr ''12li'' @ []\<rparr>)"
    using Identify_iff_recognised_tag
      [of ?oi "cstr ''ABCDEFGH''" "cstr ''12345678''" "cstr ''12li''" "cstr ''xyz''" "[]"]
    by (simp add: cstr_def)
  have "ci_match (header_tag (pabyHeader ?oi)) ''12LI''"
    by (simp add: probe_def header_tag_def ci_match_def cstr_def tolower_def)
  then have 1: "Identify ?oi"
    using Identify_iff_recognised_tag [of ?oi]
    by (auto simp: lum_tags_def probe_def cstr_def)
  have 2: "Identify (probe (cstr ''12345678'' @ cstr ''12li'' @ []))"
    by (simp add: Identify_def probe_def cstr_def STARTS_WITH_CI_def deref_def tolower_def)
  have 3: "\<not> Identify (probe (cstr ''ABCDEFGH'' @ cstr ''17li'' @ cstr ''xyz''))"
    by (simp add: Identify_def probe_def cstr_def STARTS_WITH_CI_def deref_def tolower_def)
  have 4: "\<not> Identify (probe (cstr ''ABCDEFGH12l''))"
    by (simp add: Identify_def probe_def cstr_def)
  from 1 2 3 4 show ?thesis by (simp add: cstr_def)
qed

section \<open>Byte order: the swap reverses the bytes\<close>

lemma mask_byte2: "(0x00FF0000 :: uint32_t) = push_bit 16 (mask 8)"
  by (simp add: mask_eq_exp_minus_1 push_bit_eq_mult)
lemma mask_byte1: "(0x0000FF00 :: uint32_t) = push_bit 8 (mask 8)"
  by (simp add: mask_eq_exp_minus_1 push_bit_eq_mult)

lemma bit_swapByteOrder:
  "bit (swapByteOrder ui) n \<longleftrightarrow>
     (if n < 8 then bit ui (n + 24) else if n < 16 then bit ui (n + 8)
      else if n < 24 then bit ui (n - 8) else n < 32 \<and> bit ui (n - 24))"
  unfolding swapByteOrder_def mask_byte2 mask_byte1
  apply (simp add: bit_simps)
  apply (auto simp: add.commute dest: bit_imp_le_length)
  done

lemma bit_le32:
  "bit (le32 a b c d) n \<longleftrightarrow>
     (if n < 8 then bit a n else if n < 16 then bit b (n - 8)
      else if n < 24 then bit c (n - 16) else bit d (n - 24))"
  unfolding le32_def
  apply (simp add: bit_simps)
  apply (auto simp: add.commute dest: bit_imp_le_length)
  done

lemma swapByteOrder_le32: "swapByteOrder (le32 a b c d) = le32 d c b a"
  by (rule bit_word_eqI) (auto simp: bit_swapByteOrder bit_le32 dest: bit_imp_le_length)

lemma le32_bytes:
  "le32 (ucast v) (ucast (drop_bit 8 v)) (ucast (drop_bit 16 v)) (ucast (drop_bit 24 v)) = v"
  by (rule bit_word_eqI) (auto simp: bit_le32 bit_simps add.commute)

lemma load_u32_Cons:
  "load_u32 lsb (a # b # c # d # r) = (if lsb then le32 a b c d else le32 d c b a)"
  by (simp add: load_u32_def deref_def)

lemma four_bytes: "4 \<le> length xs \<Longrightarrow> \<exists>a b c d r. xs = a # b # c # d # r"
  by (cases xs; simp; cases "tl xs"; simp; cases "tl (tl xs)"; simp; cases "tl (tl (tl xs))"; simp)

lemma load_u32_take: "4 \<le> length p \<Longrightarrow> load_u32 lsb (take 4 p) = load_u32 lsb p"
  using four_bytes [of p] by (auto simp: load_u32_Cons)

lemma load_u32_rev:
  "4 \<le> length p \<Longrightarrow> load_u32 lsb (rev (take 4 p)) = swapByteOrder (load_u32 lsb p)"
  using four_bytes [of p] by (auto simp: load_u32_Cons swapByteOrder_le32)

lemma load_store_u32: "load_u32 lsb (store_u32 lsb v @ r) = v"
  by (cases lsb) (simp_all add: store_u32_def Let_def load_u32_Cons le32_bytes)

lemma header_dims_opposite:
  "tag_opposite lsb hdr \<Longrightarrow>
   header_dims lsb hdr = (swapByteOrder (load_u32 lsb hdr), swapByteOrder (load_u32 lsb (drop 4 hdr)))"
  by (cases lsb) (simp_all add: header_dims_def Let_def tag_opposite_def order_tag_def STARTS_WITH_CI_BI STARTS_WITH_CI_LI)

lemma header_dims_not_opposite:
  "\<not> tag_opposite lsb hdr \<Longrightarrow>
   header_dims lsb hdr = (load_u32 lsb hdr, load_u32 lsb (drop 4 hdr))"
  by (cases lsb) (simp_all add: header_dims_def Let_def tag_opposite_def order_tag_def STARTS_WITH_CI_BI STARTS_WITH_CI_LI)

lemma tag_native_not_opposite: "tag_native lsb hdr \<Longrightarrow> \<not> tag_opposite lsb hdr"
  using BI_not_LI [of "order_tag hdr"] by (auto simp: tag_native_def tag_opposite_def)

lemma sint_word_of_int_32:
  "- (2 ^ 31) \<le> x \<Longrightarrow> x < 2 ^ 31 \<Longrightarrow> sint (word_of_int x :: uint32_t) = x"
  by (simp add: signed_of_int signed_take_bit_int_eq_self)

lemma uint_word_of_int_32:
  "0 \<le> x \<Longrightarrow> x < 2 ^ 32 \<Longrightarrow> uint (word_of_int x :: uint32_t) = x"
  by (simp add: uint_word_of_int)

section \<open>The outcomes of Open\<close>

lemma header_eDataType_size:
  "GDALGetDataTypeSizeBytes (header_eDataType h) = 1 \<and> header_eDataType h = GDT_Byte \<or>
   GDALGetDataTypeSizeBytes (header_eDataType h) = 2 \<and> header_eDataType h = GDT_UInt16"
  by (simp add: header_eDataType_def)

lemma overflow_check:
  "(nWidth > (word_of_int (INT_MAX div GDALGetDataTypeSizeBytes (header_eDataType h)) :: uint32_t))
   \<longleftrightarrow> uint nWidth * GDALGetDataTypeSizeBytes (header_eDataType h) > INT_MAX"
  using header_eDataType_size [of h]
  by (auto simp: INT_MAX_def word_less_def uint_word_of_int)

lemma Identify_fpL: "Identify oi \<Longrightarrow> \<exists>fp. fpL oi = Some fp"
  by (auto simp: Identify_def split: if_splits)

lemma Open_not_identified: "\<not> Identify oi \<Longrightarrow> Open lsb rc oi w = (None, oi, w)"
  by (simp add: Open_def)

lemma Open_invalid_dims:
  assumes "Identify oi" "fpL oi = Some fp"
    and "sint (fst (header_dims lsb (pabyHeader oi))) \<le> 0 \<or> sint (snd (header_dims lsb (pabyHeader oi))) \<le> 0"
  shows "Open lsb rc oi w =
    (None, oi\<lparr>fpL := None\<rparr>,
     LUMDataset_delete rc
       (LUMDataset_new\<lparr>fpImage := Some fp,
          nRasterXSize := sint (fst (header_dims lsb (pabyHeader oi))),
          nRasterYSize := sint (snd (header_dims lsb (pabyHeader oi)))\<rparr>)
       (CPLError CE_Failure CPLE_AppDefined
          (InvalidDimensions (sint (fst (header_dims lsb (pabyHeader oi))))
             (sint (snd (header_dims lsb (pabyHeader oi))))) w))"
  using assms by (simp add: Open_def Let_def)

lemma Open_overflow:
  assumes "Identify oi" "fpL oi = Some fp"
    and "0 < sint (fst (header_dims lsb (pabyHeader oi)))" "0 < sint (snd (header_dims lsb (pabyHeader oi)))"
    and "uint (fst (header_dims lsb (pabyHeader oi))) * GDALGetDataTypeSizeBytes (header_eDataType (pabyHeader oi)) > INT_MAX"
  shows "Open lsb rc oi w =
    (None, oi\<lparr>fpL := None\<rparr>,
     LUMDataset_delete rc
       (LUMDataset_new\<lparr>fpImage := Some fp,
          nRasterXSize := sint (fst (header_dims lsb (pabyHeader oi))),
          nRasterYSize := sint (snd (header_dims lsb (pabyHeader oi))),
          dsAccess := eAccess oi\<rparr>)
       (CPLError CE_Failure CPLE_AppDefined IntOverflow w))"
  using assms by (simp add: Open_def Let_def overflow_check)

lemma Open_success:
  assumes "Identify oi" "fpL oi = Some fp"
    and "0 < sint (fst (header_dims lsb (pabyHeader oi)))" "0 < sint (snd (header_dims lsb (pabyHeader oi)))"
    and "uint (fst (header_dims lsb (pabyHeader oi))) * GDALGetDataTypeSizeBytes (header_eDataType (pabyHeader oi)) \<le> INT_MAX"
  shows "Open lsb rc oi w =
    (Some \<lparr>fpImage = Some fp, bGeoTransformValid = True,
       adfGeoTransform = [0, 1, 0, 0, 0, 1],
       nRasterXSize = sint (fst (header_dims lsb (pabyHeader oi))),
       nRasterYSize = sint (snd (header_dims lsb (pabyHeader oi))),
       dsAccess = eAccess oi,
       papoBands =
         [\<lparr>nBand = 1, fpRaw = Some fp,
           nImgOffset = ucast (fst (header_dims lsb (pabyHeader oi)) *
                          word_of_int (GDALGetDataTypeSizeBytes (header_eDataType (pabyHeader oi)))),
           nPixelOffset = GDALGetDataTypeSizeBytes (header_eDataType (pabyHeader oi)),
           nLineOffset = sint (fst (header_dims lsb (pabyHeader oi)) *
                          word_of_int (GDALGetDataTypeSizeBytes (header_eDataType (pabyHeader oi)))),
           eDataType = header_eDataType (pabyHeader oi),
           bNativeOrder = header_bMSBFirst lsb (pabyHeader oi),
           bOwnsFP = False, eColorInterp = GCI_GrayIndex\<rparr>],
       dsDescription = pszFilename oi\<rparr>,
     oi\<lparr>fpL := None\<rparr>, w)"
  using assms by (simp add: Open_def Let_def overflow_check LUMDataset_new_def)

lemma Open_cases:
  "fst (Open lsb rc oi w) = Some ds \<Longrightarrow>
   Identify oi \<and> (\<exists>fp. fpL oi = Some fp) \<and>
   0 < sint (fst (header_dims lsb (pabyHeader oi))) \<and>
   0 < sint (snd (header_dims lsb (pabyHeader oi))) \<and>
   uint (fst (header_dims lsb (pabyHeader oi))) * GDALGetDataTypeSizeBytes (header_eDataType (pabyHeader oi)) \<le> INT_MAX"
  by (auto simp: Open_def Let_def overflow_check split: if_splits option.splits)

lemma Open_Some_dims:
  "fst (Open lsb rc oi w) = Some ds \<Longrightarrow>
   nRasterXSize ds = sint (fst (header_dims lsb (pabyHeader oi))) \<and>
   nRasterYSize ds = sint (snd (header_dims lsb (pabyHeader oi)))"
  by (auto simp: Open_def Let_def split: if_splits option.splits)

lemma Identify_hdr_be: "Identify (probe hdr_be_4x3)"
  by (simp add: Identify_def probe_def hdr_be_4x3_def cstr_def STARTS_WITH_CI_def deref_def
      tolower_def)

lemma type_hdr_be: "header_eDataType hdr_be_4x3 = GDT_Byte"
  by (simp add: header_eDataType_def STARTS_WITH_CI_def cstr_def deref_def tolower_def
      hdr_be_4x3_def)

text \<open>
  C5. For a 12-byte header whose order tag names the byte order opposite to the host's,
  the width and height that \<^verbatim>\<open>Open\<close> parses are the host's reading of the four bytes at
  offsets 0 and 4 taken in reverse; when the tag names the host's own order they are the
  host's reading of the bytes as stored. A dataset that \<^verbatim>\<open>Open\<close> returns carries these
  values as its raster size.
\<close>

theorem Open_dimensions_follow_order_tag:
  assumes "12 \<le> length (pabyHeader oi)"
  shows "(tag_opposite lsb (pabyHeader oi) \<longrightarrow>
            header_dims lsb (pabyHeader oi) =
              (load_u32 lsb (rev (take 4 (pabyHeader oi))),
               load_u32 lsb (rev (take 4 (drop 4 (pabyHeader oi)))))) \<and>
         (tag_native lsb (pabyHeader oi) \<longrightarrow>
            header_dims lsb (pabyHeader oi) =
              (load_u32 lsb (take 4 (pabyHeader oi)),
               load_u32 lsb (take 4 (drop 4 (pabyHeader oi))))) \<and>
         (\<forall>ds. fst (Open lsb rc oi w) = Some ds \<longrightarrow>
            nRasterXSize ds = sint (fst (header_dims lsb (pabyHeader oi))) \<and>
            nRasterYSize ds = sint (snd (header_dims lsb (pabyHeader oi))))"
proof (intro conjI impI allI)
  from assms have len: "4 \<le> length (pabyHeader oi)" "4 \<le> length (drop 4 (pabyHeader oi))"
    by simp_all
  {
    assume "tag_opposite lsb (pabyHeader oi)"
    then show "header_dims lsb (pabyHeader oi) =
              (load_u32 lsb (rev (take 4 (pabyHeader oi))),
               load_u32 lsb (rev (take 4 (drop 4 (pabyHeader oi)))))"
      using len by (simp add: header_dims_opposite load_u32_rev)
  }
  {
    assume "tag_native lsb (pabyHeader oi)"
    then have "\<not> tag_opposite lsb (pabyHeader oi)" by (rule tag_native_not_opposite)
    then show "header_dims lsb (pabyHeader oi) =
              (load_u32 lsb (take 4 (pabyHeader oi)),
               load_u32 lsb (take 4 (drop 4 (pabyHeader oi))))"
      using len by (simp add: header_dims_not_opposite load_u32_take)
  }
  {
    fix ds assume "fst (Open lsb rc oi w) = Some ds"
    then show "nRasterXSize ds = sint (fst (header_dims lsb (pabyHeader oi)))"
      and "nRasterYSize ds = sint (snd (header_dims lsb (pabyHeader oi)))"
      by (simp_all add: Open_Some_dims)
  }
qed

theorem Open_dimensions_follow_order_tag_witness:
  "12 \<le> length (pabyHeader (probe hdr_be_4x3)) \<and>
   tag_opposite True hdr_be_4x3 \<and> header_dims True hdr_be_4x3 = (4, 3) \<and>
   load_u32 True (take 4 hdr_be_4x3) = 0x04000000 \<and>
   tag_native False hdr_be_4x3 \<and> header_dims False hdr_be_4x3 = (4, 3) \<and>
   (\<exists>ds. fst (Open True 0 (probe hdr_be_4x3) empty_world) = Some ds \<and>
         nRasterXSize ds = 4 \<and> nRasterYSize ds = 3)"
proof -
  have len: "12 \<le> length (pabyHeader (probe hdr_be_4x3))"
    by (simp add: probe_def hdr_be_4x3_def cstr_def)
  have hdr: "pabyHeader (probe hdr_be_4x3) = hdr_be_4x3"
    by (simp add: probe_def)
  have opp: "tag_opposite True hdr_be_4x3"
    by (simp add: tag_opposite_def order_tag_def ci_match_def hdr_be_4x3_def cstr_def tolower_def)
  have nat: "tag_native False hdr_be_4x3"
    by (simp add: tag_native_def order_tag_def ci_match_def hdr_be_4x3_def cstr_def tolower_def)
  have ld: "load_u32 True (rev (take 4 hdr_be_4x3)) = 4"
    "load_u32 True (rev (take 4 (drop 4 hdr_be_4x3))) = 3"
    "load_u32 False (take 4 hdr_be_4x3) = 4"
    "load_u32 False (take 4 (drop 4 hdr_be_4x3)) = 3"
    "load_u32 True (take 4 hdr_be_4x3) = 0x04000000"
    by (simp_all add: hdr_be_4x3_def load_u32_Cons le32_def)
  have d1: "header_dims True hdr_be_4x3 = (4, 3)"
    using Open_dimensions_follow_order_tag [OF len, where lsb = True] opp ld
    by (simp add: hdr)
  have d2: "header_dims False hdr_be_4x3 = (4, 3)"
    using Open_dimensions_follow_order_tag [OF len, where lsb = False] nat ld
    by (simp add: hdr)
  have "\<exists>ds. fst (Open True 0 (probe hdr_be_4x3) empty_world) = Some ds"
    by (simp add: Open_def Identify_hdr_be Let_def)
       (simp add: probe_def d1 type_hdr_be INT_MAX_def)
  then obtain ds where ds: "fst (Open True 0 (probe hdr_be_4x3) empty_world) = Some ds" ..
  with Open_dimensions_follow_order_tag [OF len, where lsb = True and rc = 0 and w = empty_world]
  have "nRasterXSize ds = 4 \<and> nRasterYSize ds = 3"
    by (simp add: hdr d1)
  with ds len opp nat ld d1 d2 show ?thesis by auto
qed

section \<open>Failed opens\<close>

lemma Open_failure_effects:
  assumes "Open lsb rc oi w = (None, oi\<lparr>fpL := None\<rparr>, LUMDataset_delete rc ds (CPLError CE_Failure CPLE_AppDefined msg w))"
    and "fpImage ds = Some fp"
  shows "fst (Open lsb rc oi w) = None \<and>
         fpL (fst (snd (Open lsb rc oi w))) = None \<and>
         streams (snd (snd (Open lsb rc oi w))) fp = None \<and>
         files (snd (snd (Open lsb rc oi w))) = files w \<and>
         (CE_Failure, CPLE_AppDefined, msg) \<in> set (errors (snd (snd (Open lsb rc oi w))))"
  using assms by (simp add: LUMDataset_delete_def VSIFCloseL_def CPLError_def Let_def)

text \<open>
  C6. When a header passes \<^verbatim>\<open>Identify\<close> and its width (after any swap) is zero or not
  positive as a signed 32-bit value, or its height is, or width times pixel size exceeds
  the signed 32-bit range, \<^verbatim>\<open>Open\<close> returns no dataset, the stream it took from the
  caller is closed and no longer the caller's, no file has changed, and a failure has been
  reported.
\<close>

theorem Open_rejects_invalid_geometry:
  assumes "Identify oi"
    and "fst (header_dims lsb (pabyHeader oi)) = 0 \<or>
         sint (fst (header_dims lsb (pabyHeader oi))) \<le> 0 \<or>
         snd (header_dims lsb (pabyHeader oi)) = 0 \<or>
         sint (snd (header_dims lsb (pabyHeader oi))) \<le> 0 \<or>
         INT_MAX < uint (fst (header_dims lsb (pabyHeader oi))) *
                   GDALGetDataTypeSizeBytes (header_eDataType (pabyHeader oi))"
  shows "fst (Open lsb rc oi w) = None \<and>
         fpL (fst (snd (Open lsb rc oi w))) = None \<and>
         (\<exists>fp. fpL oi = Some fp \<and> streams (snd (snd (Open lsb rc oi w))) fp = None) \<and>
         files (snd (snd (Open lsb rc oi w))) = files w \<and>
         (\<exists>msg. (CE_Failure, CPLE_AppDefined, msg) \<in> set (errors (snd (snd (Open lsb rc oi w)))))"
proof -
  from assms(1) obtain fp where fp: "fpL oi = Some fp"
    using Identify_fpL by blast
  let ?W = "fst (header_dims lsb (pabyHeader oi))"
  let ?H = "snd (header_dims lsb (pabyHeader oi))"
  show ?thesis
  proof (cases "sint ?W \<le> 0 \<or> sint ?H \<le> 0")
    case True
    from Open_failure_effects [OF Open_invalid_dims [OF assms(1) fp True, of rc w], of fp]
    show ?thesis using fp by auto
  next
    case False
    with assms(2) have ov: "INT_MAX < uint ?W * GDALGetDataTypeSizeBytes (header_eDataType (pabyHeader oi))"
      by auto
    from False have pos: "0 < sint ?W" "0 < sint ?H" by auto
    from Open_failure_effects [OF Open_overflow [OF assms(1) fp pos ov, of rc w], of fp]
    show ?thesis using fp by auto
  qed
qed

theorem Open_rejects_invalid_geometry_witness:
  "Identify (probe hdr_zero_width) \<and> fst (header_dims True hdr_zero_width) = 0 \<and>
   Identify (probe hdr_negative_height) \<and> sint (snd (header_dims True hdr_negative_height)) = - 1 \<and>
   Identify (probe hdr_overflow) \<and>
   uint (fst (header_dims True hdr_overflow)) *
     GDALGetDataTypeSizeBytes (header_eDataType hdr_overflow) = 2147483648 \<and>
   streams probe_world 0 = Some ''probe.lum'' \<and>
   fst (Open True 0 (probe hdr_zero_width) probe_world) = None \<and>
   fpL (fst (snd (Open True 0 (probe hdr_zero_width) probe_world))) = None \<and>
   streams (snd (snd (Open True 0 (probe hdr_zero_width) probe_world))) 0 = None \<and>
   fst (Open True 0 (probe hdr_negative_height) probe_world) = None \<and>
   fpL (fst (snd (Open True 0 (probe hdr_negative_height) probe_world))) = None \<and>
   streams (snd (snd (Open True 0 (probe hdr_negative_height) probe_world))) 0 = None \<and>
   fst (Open True 0 (probe hdr_overflow) probe_world) = None \<and>
   fpL (fst (snd (Open True 0 (probe hdr_overflow) probe_world))) = None \<and>
   streams (snd (snd (Open True 0 (probe hdr_overflow) probe_world))) 0 = None"
proof -
  have id: "Identify (probe hdr_zero_width)" "Identify (probe hdr_negative_height)"
    "Identify (probe hdr_overflow)"
    by (simp_all add: Identify_def probe_def hdr_zero_width_def hdr_negative_height_def
        hdr_overflow_def cstr_def STARTS_WITH_CI_def deref_def tolower_def)
  have d1: "header_dims True hdr_zero_width = (0, 3)"
    by (simp add: header_dims_def Let_def STARTS_WITH_CI_def cstr_def deref_def tolower_def
        hdr_zero_width_def load_u32_Cons le32_def)
  have d2: "header_dims True hdr_negative_height = (4, - 1)"
    by (simp add: header_dims_def Let_def STARTS_WITH_CI_def cstr_def deref_def tolower_def
        hdr_negative_height_def load_u32_Cons le32_def)
  have d3: "header_dims True hdr_overflow = (0x40000000, 3)"
    by (simp add: header_dims_def Let_def STARTS_WITH_CI_def cstr_def deref_def tolower_def
        hdr_overflow_def load_u32_Cons le32_def)
  have t3: "header_eDataType hdr_overflow = GDT_UInt16"
    by (simp add: header_eDataType_def STARTS_WITH_CI_def cstr_def deref_def tolower_def
        hdr_overflow_def)
  have hd: "pabyHeader (probe h) = h" "fpL (probe h) = Some 0" for h
    by (simp_all add: probe_def)
  have r1: "fst (Open True 0 (probe hdr_zero_width) probe_world) = None \<and>
      fpL (fst (snd (Open True 0 (probe hdr_zero_width) probe_world))) = None \<and>
      streams (snd (snd (Open True 0 (probe hdr_zero_width) probe_world))) 0 = None"
    using Open_rejects_invalid_geometry [OF id(1), of True 0 probe_world]
    by (simp add: hd d1)
  have r2: "fst (Open True 0 (probe hdr_negative_height) probe_world) = None \<and>
      fpL (fst (snd (Open True 0 (probe hdr_negative_height) probe_world))) = None \<and>
      streams (snd (snd (Open True 0 (probe hdr_negative_height) probe_world))) 0 = None"
    using Open_rejects_invalid_geometry [OF id(2), of True 0 probe_world]
    by (simp add: hd d2)
  have r3: "fst (Open True 0 (probe hdr_overflow) probe_world) = None \<and>
      fpL (fst (snd (Open True 0 (probe hdr_overflow) probe_world))) = None \<and>
      streams (snd (snd (Open True 0 (probe hdr_overflow) probe_world))) 0 = None"
    using Open_rejects_invalid_geometry [OF id(3), of True 0 probe_world]
    by (simp add: hd d3 t3 INT_MAX_def)
  have w: "streams probe_world 0 = Some ''probe.lum''"
    by (simp add: probe_world_def)
  from id r1 r2 r3 w show ?thesis
    by (simp add: d1 d2 d3 t3)
qed

section \<open>The band of an opened dataset\<close>

lemma sint_32_small: "uint (x::uint32_t) < 2^31 \<Longrightarrow> sint x = uint x"
proof -
  assume a: "uint x < 2^31"
  have "- (2 ^ 31) \<le> uint x" by (rule order_trans [of _ 0]) simp_all
  with a show ?thesis
    using signed_take_bit_int_eq_self [of 31 "uint x"] by (simp add: sint_uint)
qed

lemma sint_32_big: "2^31 \<le> uint (x::uint32_t) \<Longrightarrow> sint x = uint x - 2^32"
proof -
  assume a: "2^31 \<le> uint x"
  have b: "uint x < 4294967296" using uint_lt2p [of x] by simp
  let ?k = "uint x - 2147483648"
  have k: "0 \<le> ?k" "?k < 4294967296" using a b by simp_all
  have "uint x + 2147483648 = ?k + 4294967296" by simp
  then have "(uint x + 2147483648) mod 4294967296 = ?k mod 4294967296"
    by (metis mod_add_self2)
  also have "\<dots> = ?k" using k by simp
  finally show ?thesis
    by (simp add: sint_uint signed_take_bit_eq_take_bit_shift take_bit_eq_mod)
qed

lemma sint_pos_uint_32: "0 < sint (x::uint32_t) \<Longrightarrow> sint x = uint x \<and> uint x < 2^31"
proof -
  assume a: "0 < sint x"
  have "uint x < 2^31"
  proof (rule ccontr)
    assume "\<not> uint x < 2^31"
    then have "sint x = uint x - 2^32" by (simp add: sint_32_big)
    with a uint_lt2p [of x] show False by simp
  qed
  then show ?thesis by (simp add: sint_32_small)
qed

lemma uint_ucast_64: "uint (ucast (x::uint32_t) :: vsi_l_offset) = uint x"
proof -
  have "0 \<le> uint x" "uint x < 4294967296"
    using uint_lt2p [of x] by simp_all
  then show ?thesis
    by (simp add: unsigned_ucast_eq take_bit_eq_mod)
qed

lemma Open_band_layout:
  assumes "fst (Open lsb rc oi w) = Some ds"
  shows "\<exists>b. papoBands ds = [b] \<and>
             nPixelOffset b = GDALGetDataTypeSizeBytes (eDataType b) \<and>
             uint (nImgOffset b) = nRasterXSize ds * nPixelOffset b \<and>
             nLineOffset b = nRasterXSize ds * nPixelOffset b"
proof -
  let ?W = "fst (header_dims lsb (pabyHeader oi))"
  let ?p = "GDALGetDataTypeSizeBytes (header_eDataType (pabyHeader oi))"
  from Open_cases [OF assms] obtain fp where
    c: "Identify oi" "fpL oi = Some fp" "0 < sint ?W"
       "0 < sint (snd (header_dims lsb (pabyHeader oi)))" "uint ?W * ?p \<le> INT_MAX"
    by auto
  have p: "?p = 1 \<or> ?p = 2" using header_eDataType_size [of "pabyHeader oi"] by auto
  have su: "sint ?W = uint ?W"
    using sint_pos_uint_32 [OF c(3)] by simp
  have prod: "uint (?W * word_of_int ?p) = uint ?W * ?p"
    using p c(5) by (auto simp: INT_MAX_def uint_word_ariths uint_word_of_int)
  have sprod: "sint (?W * word_of_int ?p) = uint ?W * ?p"
    using c(5) prod by (simp add: sint_32_small INT_MAX_def)
  have uprod: "uint (ucast (?W * word_of_int ?p) :: vsi_l_offset) = uint ?W * ?p"
    using prod by (simp add: uint_ucast_64)
  from Open_success [OF c, of rc w] assms show ?thesis
    by (auto simp: su sprod uprod)
qed

lemma Open_hdr_le_4x3:
  "\<exists>ds. fst (Open True 0 (probe hdr_le_4x3) empty_world) = Some ds"
proof -
  have id: "Identify (probe hdr_le_4x3)"
    by (simp add: Identify_def probe_def hdr_le_4x3_def cstr_def STARTS_WITH_CI_def deref_def
        tolower_def)
  have dims: "header_dims True hdr_le_4x3 = (4, 3)"
    by (simp add: header_dims_def Let_def STARTS_WITH_CI_def cstr_def deref_def tolower_def
        hdr_le_4x3_def load_u32_Cons le32_def)
  have ty: "header_eDataType hdr_le_4x3 = GDT_Byte"
    by (simp add: header_eDataType_def STARTS_WITH_CI_def cstr_def deref_def tolower_def
        hdr_le_4x3_def)
  show ?thesis
    by (simp add: Open_def id Let_def) (simp add: probe_def dims ty INT_MAX_def)
qed

text \<open>
  C2. The specification has the band start at byte offset 12, behind the header. \<^verbatim>\<open>Open\<close>
  passes the row size as the image offset: for the header that \<^verbatim>\<open>Create\<close> writes for a
  4 x 3 image of bytes on a little-endian host the band starts at offset 4, inside the
  12-byte header, while pixel stride (1) and line stride (4) are as specified.
\<close>

theorem Open_band_offset_4x3:
  "\<exists>ds b. fst (Open True 0 (probe hdr_le_4x3) empty_world) = Some ds \<and>
          nRasterXSize ds = 4 \<and> nRasterYSize ds = 3 \<and> papoBands ds = [b] \<and>
          nImgOffset b = 4 \<and> nImgOffset b \<noteq> 12 \<and> nPixelOffset b = 1 \<and> nLineOffset b = 4"
proof -
  have id: "Identify (probe hdr_le_4x3)"
    by (simp add: Identify_def probe_def hdr_le_4x3_def cstr_def STARTS_WITH_CI_def deref_def
        tolower_def)
  have dims: "header_dims True hdr_le_4x3 = (4, 3)"
    by (simp add: header_dims_def Let_def STARTS_WITH_CI_def cstr_def deref_def tolower_def
        hdr_le_4x3_def load_u32_Cons le32_def)
  have ty: "header_eDataType hdr_le_4x3 = GDT_Byte"
    by (simp add: header_eDataType_def STARTS_WITH_CI_def cstr_def deref_def tolower_def
        hdr_le_4x3_def)
  show ?thesis
    by (simp add: Open_def id Let_def) (simp add: probe_def dims ty INT_MAX_def)
qed

section \<open>The geotransform\<close>

text \<open>
  C9. A dataset that \<^verbatim>\<open>Open\<close> returns has its geotransform flag set, and
  \<^verbatim>\<open>GetGeoTransform\<close> succeeds on it with the coefficients 0, 1, 0, 0, 0, 1. The call
  hands back no dataset, so the flag stays as \<^verbatim>\<open>Open\<close> left it. On a dataset fresh from
  the constructor the call fails, and a dataset on which it fails is none that \<^verbatim>\<open>Open\<close>
  returned.
\<close>

theorem GetGeoTransform_identity_after_Open:
  "(fst (Open lsb rc oi w) = Some ds \<longrightarrow>
      bGeoTransformValid ds \<and> fst (GetGeoTransform ds buf) = CE_None \<and>
      take 6 (snd (GetGeoTransform ds buf)) = [0, 1, 0, 0, 0, 1]) \<and>
   fst (GetGeoTransform LUMDataset_new buf) = CE_Failure \<and>
   (fst (GetGeoTransform ds' buf) \<noteq> CE_None \<longrightarrow>
      \<not> bGeoTransformValid ds' \<and> fst (Open lsb rc oi w) \<noteq> Some ds')"
proof -
  have valid: "bGeoTransformValid d \<and> adfGeoTransform d = [0, 1, 0, 0, 0, 1]"
    if "fst (Open lsb rc oi w) = Some d" for d
  proof -
    from Open_cases [OF that] obtain fp where
      "Identify oi" "fpL oi = Some fp"
      "0 < sint (fst (header_dims lsb (pabyHeader oi)))"
      "0 < sint (snd (header_dims lsb (pabyHeader oi)))"
      "uint (fst (header_dims lsb (pabyHeader oi))) *
         GDALGetDataTypeSizeBytes (header_eDataType (pabyHeader oi)) \<le> INT_MAX"
      by auto
    from Open_success [OF this, of rc w] that show ?thesis by auto
  qed
  show ?thesis
    using valid [of ds] valid [of ds']
    by (auto simp: GetGeoTransform_def LUMDataset_new_def)
qed

theorem GetGeoTransform_identity_after_Open_witness:
  "(\<exists>ds. fst (Open True 0 (probe hdr_le_4x3) empty_world) = Some ds \<and>
         GetGeoTransform ds [9, 9, 9, 9, 9, 9] = (CE_None, [0, 1, 0, 0, 0, 1])) \<and>
   GetGeoTransform LUMDataset_new [9, 9, 9, 9, 9, 9] = (CE_Failure, [9, 9, 9, 9, 9, 9])"
proof -
  obtain ds where ds: "fst (Open True 0 (probe hdr_le_4x3) empty_world) = Some ds"
    using Open_hdr_le_4x3 by blast
  from GetGeoTransform_identity_after_Open
         [of True 0 "probe hdr_le_4x3" empty_world ds "[9, 9, 9, 9, 9, 9]" LUMDataset_new] ds
  have "fst (GetGeoTransform ds [9, 9, 9, 9, 9, 9]) = CE_None"
    "take 6 (snd (GetGeoTransform ds [9, 9, 9, 9, 9, 9])) = [0, 1, 0, 0, 0, 1]"
    "\<not> bGeoTransformValid LUMDataset_new"
    by simp_all
  then have "GetGeoTransform ds [9, 9, 9, 9, 9, 9] = (CE_None, [0, 1, 0, 0, 0, 1])"
    "GetGeoTransform LUMDataset_new [9, 9, 9, 9, 9, 9] = (CE_Failure, [9, 9, 9, 9, 9, 9])"
    by (auto simp: GetGeoTransform_def split: if_splits)
  with ds show ?thesis by blast
qed

section \<open>Writing the header\<close>

lemma length_store_u32: "length (store_u32 lsb v) = 4"
  by (simp add: store_u32_def Let_def)

lemma szHeader_eq:
  "szHeader lsb eType = (if eType = GDT_Byte then ''08'' else ''12'') @ (if lsb then ''LI'' else ''BI'')"
  by (simp add: szHeader_def snprintf_02d_def fmt_02d_def dec.simps)

lemma length_szHeader: "length (szHeader lsb eType) = 4"
  by (simp add: szHeader_eq)

lemma length_cstr: "length (cstr s) = length s"
  by (simp add: cstr_def)

lemma VSIFWriteL_open:
  assumes "streams w fp = Some name" "length buf = n * c"
  shows "VSIFWriteL a buf n c fp w =
    (min a (length buf) div n,
     w\<lparr>files := (files w)(name \<mapsto> (case files w name of None \<Rightarrow> [] | Some c \<Rightarrow> c) @ take a buf)\<rparr>)"
proof -
  have "take (min a (n * c)) buf = take a buf"
    using assms(2) by (simp add: min_def)
  then show ?thesis
    using assms by (simp add: VSIFWriteL_def Let_def min.commute)
qed

lemma full_item: "(min a 4 div 4 = Suc 0) = (4 \<le> a)"
  by (cases "4 \<le> a") (simp_all add: min_def)

lemma write_header_result:
  assumes "streams w fp = Some name" "files w name = Some []"
  shows "write_header lsb env x y t fp w =
    (4 \<le> accept_tag env \<and> close_rc env = 0,
     w\<lparr>files := (files w)(name \<mapsto> written lsb env x y t),
       streams := (streams w)(fp := None)\<rparr>)"
proof -
  let ?b1 = "store_u32 lsb (word_of_int x)"
  let ?b2 = "store_u32 lsb (word_of_int y)"
  let ?b3 = "cstr (szHeader lsb t)"
  let ?w1 = "w\<lparr>files := (files w)(name \<mapsto> take (accept_width env) ?b1)\<rparr>"
  let ?w2 = "w\<lparr>files := (files w)(name \<mapsto> take (accept_width env) ?b1 @ take (accept_height env) ?b2)\<rparr>"
  let ?w3 = "w\<lparr>files := (files w)(name \<mapsto> written lsb env x y t)\<rparr>"
  have 1: "VSIFWriteL (accept_width env) ?b1 4 1 fp w = (min (accept_width env) 4 div 4, ?w1)"
    using VSIFWriteL_open [of w fp name ?b1 4 1 "accept_width env"] assms
    by (simp add: length_store_u32)
  have 2: "VSIFWriteL (accept_height env) ?b2 4 1 fp ?w1 = (min (accept_height env) 4 div 4, ?w2)"
    using VSIFWriteL_open [of ?w1 fp name ?b2 4 1 "accept_height env"] assms
    by (simp add: length_store_u32)
  have 3: "VSIFWriteL (accept_tag env) ?b3 4 1 fp ?w2 = (min (accept_tag env) 4 div 4, ?w3)"
    using VSIFWriteL_open [of ?w2 fp name ?b3 4 1 "accept_tag env"] assms
    by (simp add: length_cstr length_szHeader written_def)
  show ?thesis
    by (simp only: write_header_def Let_def length_szHeader 1 2 3 snd_conv fst_conv)
       (simp add: VSIFCloseL_def full_item)
qed

lemma Open_files: "files (snd (snd (Open lsb rc oi w))) = files w"
  by (simp add: Open_def Let_def LUMDataset_delete_def VSIFCloseL_def CPLError_def
      LUMDataset_new_def split: option.splits)

lemma fst_Open_world: "fst (Open lsb rc oi w) = fst (Open lsb rc' oi w')"
  by (simp add: Open_def Let_def split: option.splits)

lemma GDALOpenInfo_delete_files: "files (GDALOpenInfo_delete oi w) = files w"
  by (simp add: GDALOpenInfo_delete_def VSIFCloseL_def split: option.splits)

lemma length_written: "length (written lsb env x y t) \<le> 12"
  by (simp add: written_def length_store_u32 length_cstr length_szHeader)

lemma Create_valid:
  assumes "t = GDT_Byte \<or> t = GDT_UInt16" "create_ok env"
  shows "fst (Create lsb env name x y 1 t w) =
           (if 4 \<le> accept_tag env \<and> close_rc env = 0 \<and> reopen_ok env
            then fst (Open lsb (delete_close_rc env) (reopened lsb env name x y t w) w)
            else None)"
    and "files (snd (Create lsb env name x y 1 t w)) = (files w)(name \<mapsto> written lsb env x y t)"
proof -
  let ?w0 = "warned name w"
  let ?w1 = "?w0\<lparr>files := (files ?w0)(name \<mapsto> []),
                 streams := (streams ?w0)(next_fp ?w0 \<mapsto> name),
                 next_fp := Suc (next_fp ?w0)\<rparr>"
  have f0: "files ?w0 = files w" "next_fp ?w0 = next_fp w"
    by (simp_all add: warned_def CPLError_def)
  have wh: "write_header lsb env x y t (next_fp ?w0) ?w1 =
    (4 \<le> accept_tag env \<and> close_rc env = 0,
     ?w1\<lparr>files := (files ?w1)(name \<mapsto> written lsb env x y t),
       streams := (streams ?w1)(next_fp ?w0 := None)\<rparr>)"
    by (rule write_header_result) simp_all
  have c: "Create lsb env name x y 1 t w =
    (let h = write_header lsb env x y t (next_fp ?w0) ?w1
     in if \<not> fst h then (None, snd h)
        else
          let oOpenInfo = GDALOpenInfo_new (reopen_ok env) name GA_Update (snd h);
              res = Open lsb (delete_close_rc env) (fst oOpenInfo) (snd oOpenInfo)
          in (fst res, GDALOpenInfo_delete (fst (snd res)) (snd (snd res))))"
    using assms by (auto simp: Create_def Let_def VSIFOpenL_wb_def warned_def)
  have len: "take 1024 (written lsb env x y t) = written lsb env x y t"
    using length_written [of lsb env x y t] by simp
  show "fst (Create lsb env name x y 1 t w) =
           (if 4 \<le> accept_tag env \<and> close_rc env = 0 \<and> reopen_ok env
            then fst (Open lsb (delete_close_rc env) (reopened lsb env name x y t w) w)
            else None)"
    unfolding c wh Let_def
    by (auto simp: GDALOpenInfo_new_def len reopened_def f0 Open_not_identified Identify_def
        intro: fst_Open_world)
  show "files (snd (Create lsb env name x y 1 t w)) = (files w)(name \<mapsto> written lsb env x y t)"
    unfolding c wh Let_def
    by (auto simp: GDALOpenInfo_new_def GDALOpenInfo_delete_files Open_files f0)
qed

lemma Create_success_eq:
  assumes "t = GDT_Byte \<or> t = GDT_UInt16" "create_ok env"
    and "4 \<le> accept_tag env" "close_rc env = 0" "reopen_ok env"
  shows "Create lsb env name x y 1 t w =
    (let res = Open lsb (delete_close_rc env) (reopened lsb env name x y t w)
                 (reopen_world lsb env name x y t w)
     in (fst res, GDALOpenInfo_delete (fst (snd res)) (snd (snd res))))"
proof -
  let ?w0 = "warned name w"
  let ?w1 = "?w0\<lparr>files := (files ?w0)(name \<mapsto> []),
                 streams := (streams ?w0)(next_fp ?w0 \<mapsto> name),
                 next_fp := Suc (next_fp ?w0)\<rparr>"
  have f0: "files ?w0 = files w" "next_fp ?w0 = next_fp w" "streams ?w0 = streams w"
    by (simp_all add: warned_def CPLError_def)
  have wh: "write_header lsb env x y t (next_fp ?w0) ?w1 =
    (4 \<le> accept_tag env \<and> close_rc env = 0,
     ?w1\<lparr>files := (files ?w1)(name \<mapsto> written lsb env x y t),
       streams := (streams ?w1)(next_fp ?w0 := None)\<rparr>)"
    by (rule write_header_result) simp_all
  have c: "Create lsb env name x y 1 t w =
    (let h = write_header lsb env x y t (next_fp ?w0) ?w1
     in if \<not> fst h then (None, snd h)
        else
          let oOpenInfo = GDALOpenInfo_new (reopen_ok env) name GA_Update (snd h);
              res = Open lsb (delete_close_rc env) (fst oOpenInfo) (snd oOpenInfo)
          in (fst res, GDALOpenInfo_delete (fst (snd res)) (snd (snd res))))"
    using assms by (auto simp: Create_def Let_def VSIFOpenL_wb_def warned_def)
  have len: "take 1024 (written lsb env x y t) = written lsb env x y t"
    using length_written [of lsb env x y t] by simp
  show ?thesis
    unfolding c wh Let_def
    using assms(3-5)
    by (simp add: GDALOpenInfo_new_def len reopened_def reopen_world_def f0)
qed

lemma Open_errors: "\<exists>es. errors (snd (snd (Open lsb rc oi w))) = errors w @ es"
  by (simp add: Open_def Let_def LUMDataset_delete_def VSIFCloseL_def CPLError_def
      LUMDataset_new_def split: option.splits)

lemma GDALOpenInfo_delete_errors: "errors (GDALOpenInfo_delete oi w) = errors w"
  by (simp add: GDALOpenInfo_delete_def VSIFCloseL_def split: option.splits)

lemma Create_errors:
  assumes "t = GDT_Byte \<or> t = GDT_UInt16"
  shows "\<exists>es. errors (snd (Create lsb env name x y 1 t w)) = errors (warned name w) @ es"
proof -
  let ?w0 = "warned name w"
  let ?r = "VSIFOpenL_wb (create_ok env) name ?w0"
  have c: "Create lsb env name x y 1 t w =
    (case fst ?r of
       None \<Rightarrow> (None, CPLError CE_Failure CPLE_OpenFailed (CreateFileFailed name) (snd ?r))
     | Some fp \<Rightarrow>
        let h = write_header lsb env x y t fp (snd ?r)
        in if \<not> fst h then (None, snd h)
           else
             let oOpenInfo = GDALOpenInfo_new (reopen_ok env) name GA_Update (snd h);
                 res = Open lsb (delete_close_rc env) (fst oOpenInfo) (snd oOpenInfo)
             in (fst res, GDALOpenInfo_delete (fst (snd res)) (snd (snd res))))"
    unfolding Create_def Let_def warned_def [symmetric] using assms by auto
  have r: "errors (snd ?r) = errors ?w0"
    by (simp add: VSIFOpenL_wb_def)
  have h: "errors (snd (write_header lsb env x y t fp w')) = errors w'" for fp w'
    by (simp add: write_header_def Let_def VSIFWriteL_def VSIFCloseL_def split: option.splits)
  have n: "errors (snd (GDALOpenInfo_new ok name acc w')) = errors w'" for ok acc w'
    by (simp add: GDALOpenInfo_new_def split: option.splits)
  show ?thesis
  proof (cases "fst ?r")
    case None
    then show ?thesis by (simp add: c r CPLError_def)
  next
    case (Some fp)
    let ?h = "write_header lsb env x y t fp (snd ?r)"
    show ?thesis
    proof (cases "fst ?h")
      case False
      then show ?thesis by (simp add: c Some h r)
    next
      case True
      let ?oi = "GDALOpenInfo_new (reopen_ok env) name GA_Update (snd ?h)"
      from Open_errors [of lsb "delete_close_rc env" "fst ?oi" "snd ?oi"]
      obtain es where "errors (snd (snd (Open lsb (delete_close_rc env) (fst ?oi) (snd ?oi)))) =
          errors (snd ?oi) @ es" ..
      then show ?thesis
        by (simp add: c Some True Let_def GDALOpenInfo_delete_errors n h r)
    qed
  qed
qed

section \<open>Opening a written header\<close>

lemma written_io_ok: "io_ok env \<Longrightarrow> written lsb env x y t = lum_header lsb x y t"
  by (simp add: written_def lum_header_def io_ok_def length_store_u32 length_cstr szHeader_eq)

lemma length_lum_header: "length (lum_header lsb x y t) = 12"
  by (simp add: lum_header_def length_store_u32 length_cstr)

lemma drop_lum_header:
  "drop 4 (lum_header lsb x y t) =
     store_u32 lsb (word_of_int y) @ cstr ((if t = GDT_Byte then ''08'' else ''12'') @ (if lsb then ''LI'' else ''BI''))"
  "drop 8 (lum_header lsb x y t) =
     cstr ((if t = GDT_Byte then ''08'' else ''12'') @ (if lsb then ''LI'' else ''BI''))"
  "drop 10 (lum_header lsb x y t) = cstr (if lsb then ''LI'' else ''BI'')"
  by (simp_all add: lum_header_def length_store_u32 cstr_def)

lemma header_dims_lum_header:
  "header_dims lsb (lum_header lsb x y t) = (word_of_int x, word_of_int y)"
proof -
  have "tag_native lsb (lum_header lsb x y t)"
    by (simp add: tag_native_def order_tag_def drop_lum_header ci_match_def cstr_def)
  then have "\<not> tag_opposite lsb (lum_header lsb x y t)"
    by (rule tag_native_not_opposite)
  then show ?thesis
    by (simp add: header_dims_not_opposite drop_lum_header(1))
       (simp add: lum_header_def load_store_u32)
qed

lemma header_eDataType_lum_header:
  "header_eDataType (lum_header lsb x y t) = (if t = GDT_Byte then GDT_Byte else GDT_UInt16)"
  by (simp add: header_eDataType_def drop_lum_header STARTS_WITH_CI_def cstr_def deref_def
      tolower_def)

lemma Identify_lum_header:
  assumes "pabyHeader oi = lum_header lsb x y t" "12 \<le> nHeaderBytes oi" "fpL oi = Some fp"
  shows "Identify oi"
proof -
  let ?tag = "(if t = GDT_Byte then ''08'' else ''12'') @ (if lsb then ''LI'' else ''BI'')"
  have "header_tag (pabyHeader oi) = cstr ?tag"
    by (simp add: assms(1) header_tag_def drop_lum_header cstr_def)
  then have "ci_match (header_tag (pabyHeader oi)) ?tag"
    by (simp add: ci_match_def)
  moreover have "?tag \<in> set lum_tags"
    by (simp add: lum_tags_def)
  ultimately show ?thesis
    using assms(2,3) unfolding Identify_tags by blast
qed

lemma Open_lum_header:
  assumes "pabyHeader oi = lum_header lsb x y t" "12 \<le> nHeaderBytes oi" "fpL oi = Some fp"
    and "t = GDT_Byte \<or> t = GDT_UInt16"
    and "0 < x" "x < 2 ^ 31" "0 < y" "y < 2 ^ 31"
    and "x * GDALGetDataTypeSizeBytes t \<le> 2 ^ 31 - 1"
  shows "\<exists>ds b. fst (Open lsb rc oi w) = Some ds \<and> nRasterXSize ds = x \<and> nRasterYSize ds = y \<and>
           papoBands ds = [b] \<and> eDataType b = t"
proof -
  have id: "Identify oi" using assms(1-3) by (rule Identify_lum_header)
  have sx: "sint (word_of_int x :: uint32_t) = x" "sint (word_of_int y :: uint32_t) = y"
    using assms(5-8) by (simp_all add: sint_word_of_int_32)
  have ux: "uint (word_of_int x :: uint32_t) = x"
    using assms(5,6) by (simp add: uint_word_of_int_32)
  have ty: "header_eDataType (lum_header lsb x y t) = t"
    using assms(4) by (auto simp: header_eDataType_lum_header)
  from Open_success [OF id assms(3), of lsb rc w]
  show ?thesis
    using assms(5,7,9) by (simp add: assms(1) header_dims_lum_header sx ux ty INT_MAX_def)
qed

lemma Open_lum_header_invalid:
  assumes "pabyHeader oi = lum_header lsb x y t" "12 \<le> nHeaderBytes oi" "fpL oi = Some fp"
    and "x \<le> 0 \<or> y \<le> 0"
    and "- (2 ^ 31) \<le> x" "x < 2 ^ 31" "- (2 ^ 31) \<le> y" "y < 2 ^ 31"
  shows "fst (Open lsb rc oi w) = None \<and>
         (CE_Failure, CPLE_AppDefined, InvalidDimensions x y) \<in> set (errors (snd (snd (Open lsb rc oi w))))"
proof -
  have id: "Identify oi" using assms(1-3) by (rule Identify_lum_header)
  have sx: "sint (word_of_int x :: uint32_t) = x" "sint (word_of_int y :: uint32_t) = y"
    using assms(5-8) by (simp_all add: sint_word_of_int_32)
  have bad: "sint (fst (header_dims lsb (pabyHeader oi))) \<le> 0 \<or>
             sint (snd (header_dims lsb (pabyHeader oi))) \<le> 0"
    using assms(4) by (simp add: assms(1) header_dims_lum_header sx)
  from Open_failure_effects [OF Open_invalid_dims [OF id assms(3) bad, of rc w], of fp]
  show ?thesis
    by (simp add: assms(1) header_dims_lum_header sx)
qed

lemma Create_invalid_args:
  assumes "(t \<noteq> GDT_Byte \<and> t \<noteq> GDT_UInt16) \<or> n \<noteq> 1"
  shows "fst (Create lsb env name x y n t w) = None"
    and "files (snd (Create lsb env name x y n t w)) = files w"
    and "streams (snd (Create lsb env name x y n t w)) = streams w"
    and "\<exists>msg. errors (snd (Create lsb env name x y n t w)) = errors w @ [(CE_Failure, CPLE_AppDefined, msg)]"
  using assms by (auto simp: Create_def CPLError_def)

lemma Create_not_created:
  assumes "t = GDT_Byte \<or> t = GDT_UInt16" "\<not> create_ok env"
  shows "fst (Create lsb env name x y 1 t w) = None"
  using assms by (auto simp: Create_def Let_def VSIFOpenL_wb_def)

lemma io_ok_good_env: "io_ok good_env"
  by (simp add: io_ok_def good_env_def)

lemma lum_header_4x3: "lum_header True 4 3 GDT_Byte = hdr_le_4x3"
  by (simp add: lum_header_def store_u32_def hdr_le_4x3_def Let_def)

lemma lum_header_0x3: "lum_header True 0 3 GDT_Byte = hdr_zero_width"
  by (simp add: lum_header_def store_u32_def hdr_zero_width_def Let_def)

lemma lum_header_be16: "lum_header False 300 3 GDT_UInt16 = [0, 0, 1, 44, 0, 0, 0, 3] @ cstr ''12BI''"
  by (simp add: lum_header_def store_u32_def Let_def drop_bit_eq_div)

section \<open>Create: what is written, and what comes back\<close>

text \<open>
  C8. With a supported pixel type, one band and a file system that does not fail,
  \<^verbatim>\<open>Create\<close> leaves in the file the width and the height as the host stores a 32-bit
  integer (the host reads them back unchanged), then the tag \<^verbatim>\<open>08\<close> or \<^verbatim>\<open>12\<close> followed
  by \<^verbatim>\<open>LI\<close> on a little-endian host and \<^verbatim>\<open>BI\<close> otherwise: 12 bytes. What it returns is
  what \<^verbatim>\<open>Open\<close> returns on an open info in update mode that holds this header and a
  stream on the file.
\<close>

theorem Create_writes_header_and_reopens:
  assumes "t = GDT_Byte \<or> t = GDT_UInt16" "io_ok env"
  shows "files (snd (Create lsb env name x y 1 t w)) name =
           Some (store_u32 lsb (word_of_int x) @ store_u32 lsb (word_of_int y) @
                 cstr ((if t = GDT_Byte then ''08'' else ''12'') @ (if lsb then ''LI'' else ''BI''))) \<and>
         length (lum_header lsb x y t) = 12 \<and>
         load_u32 lsb (lum_header lsb x y t) = word_of_int x \<and>
         load_u32 lsb (drop 4 (lum_header lsb x y t)) = word_of_int y \<and>
         (\<exists>wm. files wm name = Some (lum_header lsb x y t) \<and>
               streams wm (Suc (next_fp w)) = Some name \<and>
               Create lsb env name x y 1 t w =
                 (let res = Open lsb (delete_close_rc env)
                              \<lparr>pszFilename = name, eAccess = GA_Update, nHeaderBytes = 12,
                               pabyHeader = lum_header lsb x y t,
                               fpL = Some (Suc (next_fp w))\<rparr> wm
                  in (fst res, GDALOpenInfo_delete (fst (snd res)) (snd (snd res)))))"
proof -
  from assms(2) have io: "create_ok env" "4 \<le> accept_tag env" "close_rc env = 0" "reopen_ok env"
    by (simp_all add: io_ok_def)
  have wr: "written lsb env x y t = lum_header lsb x y t"
    using assms(2) by (rule written_io_ok)
  have 1: "files (snd (Create lsb env name x y 1 t w)) name = Some (lum_header lsb x y t)"
    by (simp add: Create_valid(2) [OF assms(1) io(1)] wr)
  have 2: "load_u32 lsb (lum_header lsb x y t) = word_of_int x"
    by (simp add: lum_header_def load_store_u32)
  have 3: "load_u32 lsb (drop 4 (lum_header lsb x y t)) = word_of_int y"
    by (simp add: drop_lum_header(1) load_store_u32)
  have 4: "files (reopen_world lsb env name x y t w) name = Some (lum_header lsb x y t)"
    "streams (reopen_world lsb env name x y t w) (Suc (next_fp w)) = Some name"
    by (simp_all add: reopen_world_def wr)
  have 5: "reopened lsb env name x y t w =
      \<lparr>pszFilename = name, eAccess = GA_Update, nHeaderBytes = 12,
       pabyHeader = lum_header lsb x y t, fpL = Some (Suc (next_fp w))\<rparr>"
    by (simp add: reopened_def wr length_lum_header)
  from Create_success_eq [OF assms(1) io, of lsb name x y w] 4 5
  have "\<exists>wm. files wm name = Some (lum_header lsb x y t) \<and>
               streams wm (Suc (next_fp w)) = Some name \<and>
               Create lsb env name x y 1 t w =
                 (let res = Open lsb (delete_close_rc env)
                              \<lparr>pszFilename = name, eAccess = GA_Update, nHeaderBytes = 12,
                               pabyHeader = lum_header lsb x y t,
                               fpL = Some (Suc (next_fp w))\<rparr> wm
                  in (fst res, GDALOpenInfo_delete (fst (snd res)) (snd (snd res))))"
    by (intro exI [of _ "reopen_world lsb env name x y t w"]) simp
  with 1 2 3 show ?thesis
    by (simp add: length_lum_header) (simp add: lum_header_def)
qed

theorem Create_writes_header_and_reopens_witness:
  "io_ok good_env \<and>
   files (snd (Create True good_env ''test.lum'' 4 3 1 GDT_Byte empty_world)) ''test.lum'' =
     Some ([4, 0, 0, 0, 3, 0, 0, 0] @ cstr ''08LI'') \<and>
   files (snd (Create False good_env ''test.lum'' 300 3 1 GDT_UInt16 empty_world)) ''test.lum'' =
     Some ([0, 0, 1, 44, 0, 0, 0, 3] @ cstr ''12BI'')"
  using Create_writes_header_and_reopens
          [of GDT_Byte good_env True "''test.lum''" 4 3 empty_world]
        Create_writes_header_and_reopens
          [of GDT_UInt16 good_env False "''test.lum''" 300 3 empty_world]
        lum_header_4x3 lum_header_be16
  by (simp add: io_ok_good_env lum_header_def hdr_le_4x3_def)

text \<open>
  C1. Round trip: for a width and a height between 1 and 2^31 - 1, a pixel type of bytes
  or 16-bit unsigned whose row fits a signed 32-bit integer, and a file system that does
  not fail, the dataset that \<^verbatim>\<open>Create\<close> returns, and the dataset of any later \<^verbatim>\<open>Open\<close>
  of the file it leaves, have exactly this width and height and one band of exactly this
  pixel type.
\<close>

theorem Create_then_Open_round_trip:
  assumes "0 < nXSize" "nXSize < 2 ^ 31" "0 < nYSize" "nYSize < 2 ^ 31"
    and "t = GDT_Byte \<or> t = GDT_UInt16"
    and "nXSize * GDALGetDataTypeSizeBytes t \<le> 2 ^ 31 - 1"
    and "io_ok env"
  shows "(\<exists>ds b. fst (Create lsb env name nXSize nYSize 1 t w) = Some ds \<and>
            nRasterXSize ds = nXSize \<and> nRasterYSize ds = nYSize \<and>
            papoBands ds = [b] \<and> eDataType b = t) \<and>
         (\<exists>ds b. fst (Open lsb rc
                    (fst (GDALOpenInfo_new True name acc (snd (Create lsb env name nXSize nYSize 1 t w))))
                    (snd (GDALOpenInfo_new True name acc (snd (Create lsb env name nXSize nYSize 1 t w)))))
                  = Some ds \<and>
            nRasterXSize ds = nXSize \<and> nRasterYSize ds = nYSize \<and>
            papoBands ds = [b] \<and> eDataType b = t)"
proof
  from assms(7) have io: "create_ok env" "4 \<le> accept_tag env \<and> close_rc env = 0 \<and> reopen_ok env"
    by (simp_all add: io_ok_def)
  have wr: "written lsb env nXSize nYSize t = lum_header lsb nXSize nYSize t"
    using assms(7) by (rule written_io_ok)
  have oi: "pabyHeader (reopened lsb env name nXSize nYSize t w) = lum_header lsb nXSize nYSize t"
    "12 \<le> nHeaderBytes (reopened lsb env name nXSize nYSize t w)"
    "fpL (reopened lsb env name nXSize nYSize t w) = Some (Suc (next_fp w))"
    by (simp_all add: reopened_def wr length_lum_header)
  from Open_lum_header [OF oi assms(5) assms(1-4) assms(6), of "delete_close_rc env" w]
  show "\<exists>ds b. fst (Create lsb env name nXSize nYSize 1 t w) = Some ds \<and>
            nRasterXSize ds = nXSize \<and> nRasterYSize ds = nYSize \<and>
            papoBands ds = [b] \<and> eDataType b = t"
    by (simp add: Create_valid(1) [OF assms(5) io(1)] io(2))
  let ?w' = "snd (Create lsb env name nXSize nYSize 1 t w)"
  let ?oi = "fst (GDALOpenInfo_new True name acc ?w')"
  have f: "files ?w' name = Some (lum_header lsb nXSize nYSize t)"
    by (simp add: Create_valid(2) [OF assms(5) io(1)] wr)
  have oi': "pabyHeader ?oi = lum_header lsb nXSize nYSize t" "12 \<le> nHeaderBytes ?oi"
    "fpL ?oi = Some (next_fp ?w')"
    by (simp_all add: GDALOpenInfo_new_def f length_lum_header)
  from Open_lum_header [OF oi' assms(5) assms(1-4) assms(6)]
  show "\<exists>ds b. fst (Open lsb rc ?oi (snd (GDALOpenInfo_new True name acc ?w'))) = Some ds \<and>
            nRasterXSize ds = nXSize \<and> nRasterYSize ds = nYSize \<and>
            papoBands ds = [b] \<and> eDataType b = t" .
qed

theorem Create_then_Open_round_trip_witness:
  "io_ok good_env \<and>
   (\<exists>ds b. fst (Create True good_env ''test.lum'' 4 3 1 GDT_Byte empty_world) = Some ds \<and>
      nRasterXSize ds = 4 \<and> nRasterYSize ds = 3 \<and> papoBands ds = [b] \<and> eDataType b = GDT_Byte) \<and>
   (\<exists>ds b. fst (Create False good_env ''wide.lum'' 1073741823 1 1 GDT_UInt16 empty_world) = Some ds \<and>
      nRasterXSize ds = 1073741823 \<and> nRasterYSize ds = 1 \<and> papoBands ds = [b] \<and>
      eDataType b = GDT_UInt16)"
  using Create_then_Open_round_trip
          [of 4 3 GDT_Byte good_env True "''test.lum''" empty_world 0 GA_ReadOnly]
        Create_then_Open_round_trip
          [of 1073741823 1 GDT_UInt16 good_env False "''wide.lum''" empty_world 0 GA_ReadOnly]
  by (simp add: io_ok_good_env)

section \<open>Create: failures\<close>

text \<open>
  C3. If the stream takes fewer than the four bytes of the width, of the height or of the
  tag (the write fails), or if the close fails, \<^verbatim>\<open>Create\<close> returns no dataset. A failed
  write of the tag and a failed close clear \<^verbatim>\<open>bOK\<close>; after a failed write of the width
  or the height the file is shorter than 12 bytes, and the \<^verbatim>\<open>Open\<close> that \<^verbatim>\<open>Create\<close> ends
  with does not identify it.
\<close>

theorem Create_io_failure_is_fatal:
  assumes "accept_width env < 4 \<or> accept_height env < 4 \<or> accept_tag env < 4 \<or> close_rc env \<noteq> 0"
  shows "fst (Create lsb env name x y n t w) = None"
proof (cases "(t \<noteq> GDT_Byte \<and> t \<noteq> GDT_UInt16) \<or> n \<noteq> 1")
  case True
  then show ?thesis by (rule Create_invalid_args(1))
next
  case False
  then have t: "t = GDT_Byte \<or> t = GDT_UInt16" and n: "n = 1" by auto
  show ?thesis
  proof (cases "create_ok env")
    case False
    with t show ?thesis by (simp add: n Create_not_created)
  next
    case True
    show ?thesis
    proof (cases "4 \<le> accept_tag env \<and> close_rc env = 0 \<and> reopen_ok env")
      case False
      then show ?thesis unfolding n Create_valid(1) [OF t True] by auto
    next
      case ok: True
      with assms have "accept_width env < 4 \<or> accept_height env < 4" by auto
      then have "length (written lsb env x y t) < 12"
        by (auto simp: written_def length_store_u32 length_cstr length_szHeader)
      then have "\<not> Identify (reopened lsb env name x y t w)"
        by (simp add: Identify_def reopened_def)
      then show ?thesis
        by (simp add: n Create_valid(1) [OF t True] Open_not_identified)
    qed
  qed
qed

theorem Create_io_failure_is_fatal_witness:
  "accept_width (good_env\<lparr>accept_width := 2\<rparr>) < 4 \<and>
   fst (Create True (good_env\<lparr>accept_width := 2\<rparr>) ''test.lum'' 4 3 1 GDT_Byte empty_world) = None \<and>
   accept_height (good_env\<lparr>accept_height := 0\<rparr>) < 4 \<and>
   fst (Create True (good_env\<lparr>accept_height := 0\<rparr>) ''test.lum'' 4 3 1 GDT_Byte empty_world) = None \<and>
   accept_tag (good_env\<lparr>accept_tag := 3\<rparr>) < 4 \<and>
   fst (Create True (good_env\<lparr>accept_tag := 3\<rparr>) ''test.lum'' 4 3 1 GDT_Byte empty_world) = None \<and>
   close_rc (good_env\<lparr>close_rc := - 1\<rparr>) \<noteq> 0 \<and>
   fst (Create True (good_env\<lparr>close_rc := - 1\<rparr>) ''test.lum'' 4 3 1 GDT_Byte empty_world) = None"
  using Create_io_failure_is_fatal
          [of "good_env\<lparr>accept_width := 2\<rparr>" True "''test.lum''" 4 3 1 GDT_Byte empty_world]
        Create_io_failure_is_fatal
          [of "good_env\<lparr>accept_height := 0\<rparr>" True "''test.lum''" 4 3 1 GDT_Byte empty_world]
        Create_io_failure_is_fatal
          [of "good_env\<lparr>accept_tag := 3\<rparr>" True "''test.lum''" 4 3 1 GDT_Byte empty_world]
        Create_io_failure_is_fatal
          [of "good_env\<lparr>close_rc := - 1\<rparr>" True "''test.lum''" 4 3 1 GDT_Byte empty_world]
  by (simp add: good_env_def)

text \<open>
  C7. With a pixel type other than bytes or 16-bit unsigned, or a band count other than 1,
  \<^verbatim>\<open>Create\<close> returns no dataset and leaves files and streams as they were: it has only
  reported one failure. With a supported type and one band, an extension other than
  \<^verbatim>\<open>lum\<close> adds a warning to the log and nothing else: the file is created if the file
  system allows, and a dataset is returned when the sizes are valid and nothing fails.
\<close>

theorem Create_rejects_before_touching_files:
  "((t \<noteq> GDT_Byte \<and> t \<noteq> GDT_UInt16) \<or> n \<noteq> 1 \<longrightarrow>
      fst (Create lsb env name x y n t w) = None \<and>
      files (snd (Create lsb env name x y n t w)) = files w \<and>
      streams (snd (Create lsb env name x y n t w)) = streams w \<and>
      (\<exists>msg. errors (snd (Create lsb env name x y n t w)) =
               errors w @ [(CE_Failure, CPLE_AppDefined, msg)])) \<and>
   ((t = GDT_Byte \<or> t = GDT_UInt16) \<and> \<not> EQUAL (CPLGetExtension name) ''LUM'' \<longrightarrow>
      (\<exists>es. errors (snd (Create lsb env name x y 1 t w)) =
              errors w @ (CE_Warning, CPLE_AppDefined, ExtensionShouldBeLum) # es) \<and>
      (create_ok env \<longrightarrow> files (snd (Create lsb env name x y 1 t w)) name \<noteq> None) \<and>
      (io_ok env \<and> 0 < x \<and> x < 2 ^ 31 \<and> 0 < y \<and> y < 2 ^ 31 \<and>
       x * GDALGetDataTypeSizeBytes t \<le> 2 ^ 31 - 1 \<longrightarrow>
         fst (Create lsb env name x y 1 t w) \<noteq> None))"
proof (intro conjI impI)
  assume a: "(t \<noteq> GDT_Byte \<and> t \<noteq> GDT_UInt16) \<or> n \<noteq> 1"
  show "fst (Create lsb env name x y n t w) = None"
    using a by (rule Create_invalid_args(1))
  show "files (snd (Create lsb env name x y n t w)) = files w"
    using a by (rule Create_invalid_args(2))
  show "streams (snd (Create lsb env name x y n t w)) = streams w"
    using a by (rule Create_invalid_args(3))
  show "\<exists>msg. errors (snd (Create lsb env name x y n t w)) =
               errors w @ [(CE_Failure, CPLE_AppDefined, msg)]"
    using a by (rule Create_invalid_args(4))
next
  assume b: "(t = GDT_Byte \<or> t = GDT_UInt16) \<and> \<not> EQUAL (CPLGetExtension name) ''LUM''"
  then have t: "t = GDT_Byte \<or> t = GDT_UInt16" by simp
  from b have "errors (warned name w) = errors w @ [(CE_Warning, CPLE_AppDefined, ExtensionShouldBeLum)]"
    by (simp add: warned_def CPLError_def)
  with Create_errors [OF t, of lsb env name x y w]
  show "\<exists>es. errors (snd (Create lsb env name x y 1 t w)) =
              errors w @ (CE_Warning, CPLE_AppDefined, ExtensionShouldBeLum) # es"
    by auto
  {
    assume "create_ok env"
    then show "files (snd (Create lsb env name x y 1 t w)) name \<noteq> None"
      by (simp add: Create_valid(2) [OF t])
  }
  {
    assume c: "io_ok env \<and> 0 < x \<and> x < 2 ^ 31 \<and> 0 < y \<and> y < 2 ^ 31 \<and>
       x * GDALGetDataTypeSizeBytes t \<le> 2 ^ 31 - 1"
    then have io: "create_ok env" "4 \<le> accept_tag env \<and> close_rc env = 0 \<and> reopen_ok env"
      by (simp_all add: io_ok_def)
    have wr: "written lsb env x y t = lum_header lsb x y t"
      using c by (simp add: written_io_ok)
    have oi: "pabyHeader (reopened lsb env name x y t w) = lum_header lsb x y t"
      "12 \<le> nHeaderBytes (reopened lsb env name x y t w)"
      "fpL (reopened lsb env name x y t w) = Some (Suc (next_fp w))"
      by (simp_all add: reopened_def wr length_lum_header)
    from c have d: "0 < x" "x < 2 ^ 31" "0 < y" "y < 2 ^ 31"
      "x * GDALGetDataTypeSizeBytes t \<le> 2 ^ 31 - 1" by simp_all
    from Open_lum_header [OF oi t d, of "delete_close_rc env" w]
    show "fst (Create lsb env name x y 1 t w) \<noteq> None"
      by (auto simp: Create_valid(1) [OF t io(1)] io(2))
  }
qed

theorem Create_rejects_before_touching_files_witness:
  "fst (Create True good_env ''test.lum'' 4 3 1 GDT_Float32 empty_world) = None \<and>
   files (snd (Create True good_env ''test.lum'' 4 3 1 GDT_Float32 empty_world)) = files empty_world \<and>
   fst (Create True good_env ''test.lum'' 4 3 3 GDT_Byte empty_world) = None \<and>
   files (snd (Create True good_env ''test.lum'' 4 3 3 GDT_Byte empty_world)) = files empty_world \<and>
   \<not> EQUAL (CPLGetExtension ''test.tif'') ''LUM'' \<and>
   fst (Create True good_env ''test.tif'' 4 3 1 GDT_Byte empty_world) \<noteq> None \<and>
   files (snd (Create True good_env ''test.tif'' 4 3 1 GDT_Byte empty_world)) ''test.tif'' \<noteq> None \<and>
   (\<exists>es. errors (snd (Create True good_env ''test.tif'' 4 3 1 GDT_Byte empty_world)) =
      (CE_Warning, CPLE_AppDefined, ExtensionShouldBeLum) # es)"
proof -
  have ext: "\<not> EQUAL (CPLGetExtension ''test.tif'') ''LUM''"
    by (simp add: CPLGetExtension_def EQUAL_def cstr_def tolower_def)
  have ok: "create_ok good_env" by (simp add: good_env_def)
  show ?thesis
    using Create_rejects_before_touching_files
            [of GDT_Float32 1 True good_env "''test.lum''" 4 3 empty_world]
          Create_rejects_before_touching_files
            [of GDT_Byte 3 True good_env "''test.lum''" 4 3 empty_world]
          Create_rejects_before_touching_files
            [of GDT_Byte 1 True good_env "''test.tif''" 4 3 empty_world]
          ext ok
    by (simp add: io_ok_good_env empty_world_def)
qed

text \<open>
  C10. \<^verbatim>\<open>Create\<close> does not look at the sizes. With a supported type, one band, a file
  system that does not fail and a width or height that is zero or negative, it returns no
  dataset (the \<^verbatim>\<open>Open\<close> it ends with reports the invalid dimensions), and the file is left
  holding the 12-byte header with these sizes; a wrong type or band count leaves all files
  as they were.
\<close>

theorem Create_leaves_invalid_header_on_disk:
  assumes "t = GDT_Byte \<or> t = GDT_UInt16" "io_ok env"
    and "x \<le> 0 \<or> y \<le> 0"
    and "- (2 ^ 31) \<le> x" "x < 2 ^ 31" "- (2 ^ 31) \<le> y" "y < 2 ^ 31"
  shows "fst (Create lsb env name x y 1 t w) = None \<and>
         files (snd (Create lsb env name x y 1 t w)) name = Some (lum_header lsb x y t) \<and>
         length (lum_header lsb x y t) = 12 \<and>
         (CE_Failure, CPLE_AppDefined, InvalidDimensions x y)
           \<in> set (errors (snd (Create lsb env name x y 1 t w))) \<and>
         (\<forall>t' n'. (t' \<noteq> GDT_Byte \<and> t' \<noteq> GDT_UInt16) \<or> n' \<noteq> 1 \<longrightarrow>
            files (snd (Create lsb env name x y n' t' w)) = files w)"
proof -
  from assms(2) have io: "create_ok env" "4 \<le> accept_tag env" "close_rc env = 0" "reopen_ok env"
    by (simp_all add: io_ok_def)
  have wr: "written lsb env x y t = lum_header lsb x y t"
    using assms(2) by (rule written_io_ok)
  have oi: "pabyHeader (reopened lsb env name x y t w) = lum_header lsb x y t"
    "12 \<le> nHeaderBytes (reopened lsb env name x y t w)"
    "fpL (reopened lsb env name x y t w) = Some (Suc (next_fp w))"
    by (simp_all add: reopened_def wr length_lum_header)
  note inv = Open_lum_header_invalid [OF oi assms(3-7), of "delete_close_rc env"
      "reopen_world lsb env name x y t w"]
  have 1: "fst (Create lsb env name x y 1 t w) = None"
    using inv by (simp add: Create_success_eq [OF assms(1) io] Let_def)
  have 2: "files (snd (Create lsb env name x y 1 t w)) name = Some (lum_header lsb x y t)"
    by (simp add: Create_valid(2) [OF assms(1) io(1)] wr)
  have 3: "(CE_Failure, CPLE_AppDefined, InvalidDimensions x y)
           \<in> set (errors (snd (Create lsb env name x y 1 t w)))"
    using inv by (simp add: Create_success_eq [OF assms(1) io] Let_def GDALOpenInfo_delete_errors)
  from 1 2 3 show ?thesis
    by (simp add: length_lum_header Create_invalid_args(2))
qed

theorem Create_leaves_invalid_header_on_disk_witness:
  "io_ok good_env \<and>
   fst (Create True good_env ''test.lum'' 0 3 1 GDT_Byte empty_world) = None \<and>
   files (snd (Create True good_env ''test.lum'' 0 3 1 GDT_Byte empty_world)) ''test.lum'' =
     Some ([0, 0, 0, 0, 3, 0, 0, 0] @ cstr ''08LI'') \<and>
   files empty_world ''test.lum'' = None \<and>
   (CE_Failure, CPLE_AppDefined, InvalidDimensions 0 3)
     \<in> set (errors (snd (Create True good_env ''test.lum'' 0 3 1 GDT_Byte empty_world))) \<and>
   fst (Create True good_env ''test.lum'' 4 (- 3) 1 GDT_Byte empty_world) = None \<and>
   files (snd (Create True good_env ''test.lum'' 4 (- 3) 1 GDT_Byte empty_world)) ''test.lum'' \<noteq> None \<and>
   files (snd (Create True good_env ''test.lum'' 0 3 1 GDT_Float32 empty_world)) ''test.lum'' = None"
proof -
  have a: "fst (Create True good_env ''test.lum'' 0 3 1 GDT_Byte empty_world) = None \<and>
      files (snd (Create True good_env ''test.lum'' 0 3 1 GDT_Byte empty_world)) ''test.lum'' =
        Some (lum_header True 0 3 GDT_Byte) \<and>
      length (lum_header True 0 3 GDT_Byte) = 12 \<and>
      (CE_Failure, CPLE_AppDefined, InvalidDimensions 0 3)
        \<in> set (errors (snd (Create True good_env ''test.lum'' 0 3 1 GDT_Byte empty_world))) \<and>
      (\<forall>t' n'. (t' \<noteq> GDT_Byte \<and> t' \<noteq> GDT_UInt16) \<or> n' \<noteq> 1 \<longrightarrow>
         files (snd (Create True good_env ''test.lum'' 0 3 n' t' empty_world)) = files empty_world)"
    by (rule Create_leaves_invalid_header_on_disk) (simp_all add: io_ok_good_env)
  then have "files (snd (Create True good_env ''test.lum'' 0 3 1 GDT_Float32 empty_world)) =
      files empty_world"
    by blast
  then have b: "files (snd (Create True good_env ''test.lum'' 0 3 1 GDT_Float32 empty_world))
      ''test.lum'' = None"
    by (simp add: empty_world_def)
  have c: "fst (Create True good_env ''test.lum'' 4 (- 3) 1 GDT_Byte empty_world) = None \<and>
      files (snd (Create True good_env ''test.lum'' 4 (- 3) 1 GDT_Byte empty_world)) ''test.lum'' =
        Some (lum_header True 4 (- 3) GDT_Byte)"
    using Create_leaves_invalid_header_on_disk
            [of GDT_Byte good_env 4 "- 3" True "''test.lum''" empty_world]
    by (simp add: io_ok_good_env)
  from a b c show ?thesis
    by (simp add: io_ok_good_env lum_header_0x3 hdr_zero_width_def empty_world_def)
qed

end
